theory Spec2Isabelle
  imports Main "HOL-Library.Char_ord" "HOL-Library.List_Lexorder"
begin

section \<open>Strings and the library functions the bridge calls\<close>

text \<open>
  The module under study is \<^verbatim>\<open>remote-tools.js\<close>: six tool handlers that proxy file
  operations and commands to a remote host. A JavaScript string is modelled as a
  \<^typ>\<open>string\<close>; each \<^typ>\<open>char\<close> stands for one UTF-16 code unit in the range 0..255, so
  \<^const>\<open>length\<close> is the \<^verbatim>\<open>.length\<close> of the source. JavaScript numbers are modelled
  as integers.
\<close>

abbreviation (input) SQ :: char where "SQ \<equiv> CHR 0x27"
abbreviation (input) BSL :: char where "BSL \<equiv> CHR 0x5C"
abbreviation (input) NL :: char where "NL \<equiv> CHR 0x0A"
abbreviation (input) SLASH :: char where "SLASH \<equiv> CHR ''/''"
abbreviation (input) DOLLAR :: char where "DOLLAR \<equiv> CHR ''$''"

text \<open>\<^verbatim>\<open>s.startsWith(p)\<close>\<close>

fun startsWith :: "string \<Rightarrow> string \<Rightarrow> bool" where
  "startsWith s [] = True"
| "startsWith [] (p # ps) = False"
| "startsWith (c # cs) (p # ps) = (c = p \<and> startsWith cs ps)"

text \<open>\<^verbatim>\<open>s.includes(x)\<close>: \<open>x\<close> starts at some position of \<open>s\<close> (the end included).\<close>

fun str_includes :: "string \<Rightarrow> string \<Rightarrow> bool" where
  "str_includes [] x = (x = [])"
| "str_includes (c # cs) x = (startsWith (c # cs) x \<or> str_includes cs x)"

text \<open>
  \<^verbatim>\<open>s.replace(/c/g, rep)\<close> for a one-character pattern and a replacement text without
  \<^verbatim>\<open>$\<close> patterns: every \<open>c\<close> becomes \<open>rep\<close>.
\<close>

definition replaceAllChar :: "char \<Rightarrow> string \<Rightarrow> string \<Rightarrow> string" where
  "replaceAllChar c rep s = concat (map (\<lambda>d. if d = c then rep else [d]) s)"

text \<open>\<^verbatim>\<open>s.split(c)\<close> for a one-character separator: never empty.\<close>

fun splitChar :: "char \<Rightarrow> string \<Rightarrow> string list" where
  "splitChar c [] = [[]]"
| "splitChar c (d # ds) =
     (if d = c then [] # splitChar c ds
      else (case splitChar c ds of [] \<Rightarrow> [[d]] | p # ps \<Rightarrow> (d # p) # ps))"

text \<open>\<^verbatim>\<open>parts.join(sep)\<close>\<close>

fun joinWith :: "string \<Rightarrow> string list \<Rightarrow> string" where
  "joinWith sep [] = []"
| "joinWith sep [p] = p"
| "joinWith sep (p # q # ps) = p @ sep @ joinWith sep (q # ps)"

text \<open>
  \<^verbatim>\<open>xs.slice(start, end)\<close> of an array: a negative index counts from the end, and both
  indices are clamped to the array.
\<close>

definition relativeIndex :: "int \<Rightarrow> nat \<Rightarrow> nat" where
  "relativeIndex i len = (if i < 0 then nat (max (int len + i) 0) else min (nat i) len)"

definition arraySlice :: "'a list \<Rightarrow> int \<Rightarrow> int \<Rightarrow> 'a list" where
  "arraySlice xs start end =
     (let k = relativeIndex start (length xs); final = relativeIndex end (length xs)
      in take (final - k) (drop k xs))"

text \<open>The decimal text of a number, as a template literal prints an integer.\<close>

fun digitsOfNat :: "nat \<Rightarrow> string" where
  "digitsOfNat n =
     (if n < 10 then [char_of (48 + n)]
      else digitsOfNat (n div 10) @ [char_of (48 + n mod 10)])"

declare digitsOfNat.simps [simp del]

definition numberToString :: "int \<Rightarrow> string" where
  "numberToString i = (if i < 0 then CHR ''-'' # digitsOfNat (nat (- i)) else digitsOfNat (nat i))"

subsection \<open>Node's \<^verbatim>\<open>path.posix\<close>\<close>

text \<open>
  \<^verbatim>\<open>path.posix.normalize\<close> works on the segments between slashes: empty segments and
  \<^verbatim>\<open>.\<close> are dropped, \<^verbatim>\<open>..\<close> removes the segment before it (or is kept, for a relative
  path that climbs above its start), a trailing slash is kept, and the empty result is
  \<^verbatim>\<open>.\<close> (or \<^verbatim>\<open>/\<close> for an absolute path). The segments are collected in reverse.
\<close>

fun normalizeSegments :: "bool \<Rightarrow> string list \<Rightarrow> string list \<Rightarrow> string list" where
  "normalizeSegments allowAboveRoot res [] = rev res"
| "normalizeSegments allowAboveRoot res (seg # segs) =
     (if seg = [] \<or> seg = ''.'' then normalizeSegments allowAboveRoot res segs
      else if seg = ''..'' then
        (case res of
           [] \<Rightarrow> normalizeSegments allowAboveRoot (if allowAboveRoot then [''..''] else []) segs
         | r # rs \<Rightarrow>
             if r = ''..'' then
               normalizeSegments allowAboveRoot (if allowAboveRoot then ''..'' # r # rs else r # rs) segs
             else normalizeSegments allowAboveRoot rs segs)
      else normalizeSegments allowAboveRoot (seg # res) segs)"

definition posix_isAbsolute :: "string \<Rightarrow> bool" where
  "posix_isAbsolute p = startsWith p ''/''"

definition posix_normalize :: "string \<Rightarrow> string" where
  "posix_normalize p =
     (if p = [] then ''.''
      else
        let isAbsolute = posix_isAbsolute p;
            trailingSeparator = (last p = SLASH);
            body = joinWith ''/'' (normalizeSegments (\<not> isAbsolute) [] (splitChar SLASH p))
        in if body = [] then
             (if isAbsolute then ''/'' else if trailingSeparator then ''./'' else ''.'')
           else (if isAbsolute then ''/'' else []) @ body @ (if trailingSeparator then ''/'' else []))"

definition posix_join :: "string list \<Rightarrow> string" where
  "posix_join parts =
     (let joined = joinWith ''/'' (filter (\<lambda>p. p \<noteq> []) parts)
      in if joined = [] then ''.'' else posix_normalize joined)"

section \<open>Configuration read from the editor\<close>

text \<open>
  What the module reads from \<^verbatim>\<open>vscode.workspace\<close>, \<^verbatim>\<open>vscode.env\<close> and \<^verbatim>\<open>os\<close>:
  the \<^verbatim>\<open>claudeCode.*\<close> settings, the remote authority (empty when undefined), the
  paths of the workspace folders (\<open>None\<close> when undefined), and the home directory.
\<close>

record config =
  sshHost :: string
  remoteAuthority :: string
  workspaceFolders :: "string list option"
  homedir :: string
  useSSHExec :: bool
  sshIdentityFile :: string
  sshExtraArgs :: "string list"
  sshConfigFile :: string

text \<open>
  A thrown \<^verbatim>\<open>Error\<close>, with its message. Whatever the module or a collaborator
  throws is taken to be such an object, so that \<^verbatim>\<open>err.message\<close> in a \<^verbatim>\<open>catch\<close> block
  is a text.
\<close>

datatype exn = Error string

fun message :: "exn \<Rightarrow> string" where
  "message (Error m) = m"

text \<open>
  \<^verbatim>\<open>getSshHost\<close>: the setting if it is not empty, else the host of an authority
  \<^verbatim>\<open>ssh-remote+host\<close> (the pattern \<^verbatim>\<open>^ssh-remote\+(.+)$\<close>: a non-empty rest without
  line terminators), else the empty string.
\<close>

definition getSshHost :: "config \<Rightarrow> string" where
  "getSshHost cfg =
     (if sshHost cfg \<noteq> [] then sshHost cfg
      else
        let authority = remoteAuthority cfg; rest = drop 11 authority
        in if startsWith authority ''ssh-remote+'' \<and> rest \<noteq> []
              \<and> NL \<notin> set rest \<and> CHR 0x0D \<notin> set rest
           then rest else [])"

definition getRemoteCwd :: "config \<Rightarrow> exn + string" where
  "getRemoteCwd cfg =
     (case workspaceFolders cfg of
        None \<Rightarrow> Inl (Error ''No workspace folder open; cannot determine remote working directory'')
      | Some [] \<Rightarrow> Inl (Error ''No workspace folder open; cannot determine remote working directory'')
      | Some (folder # _) \<Rightarrow> Inr folder)"

text \<open>
  \<^verbatim>\<open>getLocalCwd\<close>; \<^verbatim>\<open>path.join\<close> is the POSIX one (the extension runs on macOS or
  Linux). \<^verbatim>\<open>replace(/^-/, "")\<close> drops one leading dash.
\<close>

definition getLocalCwd :: "config \<Rightarrow> string" where
  "getLocalCwd cfg =
     (let remotePath = (case workspaceFolders cfg of
                          Some (folder # _) \<Rightarrow> folder
                        | _ \<Rightarrow> ''default'');
          host = (if getSshHost cfg \<noteq> [] then getSshHost cfg else ''unknown'');
          dashed = replaceAllChar SLASH ''-'' remotePath;
          safeRemotePath = (if startsWith dashed ''-'' then tl dashed else dashed)
      in posix_join [homedir cfg, ''.claude'', ''remote'', host, safeRemotePath])"

text \<open>
  \<^verbatim>\<open>toRemotePath\<close>. The local prefix is computed before the remote root, and only the
  latter can throw. \<^verbatim>\<open>replace(/^[\/\\]/, "")\<close> drops one leading slash or backslash.
\<close>

definition toRemotePath :: "config \<Rightarrow> string \<Rightarrow> exn + string" where
  "toRemotePath cfg filePath =
     (let localPrefix = getLocalCwd cfg
      in case getRemoteCwd cfg of
           Inl e \<Rightarrow> Inl e
         | Inr remoteCwd \<Rightarrow>
             if startsWith filePath localPrefix then
               (let sliced = drop (length localPrefix) filePath;
                    rel = (if startsWith sliced ''/'' \<or> startsWith sliced [BSL]
                           then tl sliced else sliced)
                in Inr (if rel \<noteq> [] then posix_join [remoteCwd, rel] else remoteCwd))
             else if posix_isAbsolute filePath then Inr filePath
             else Inr (posix_join [remoteCwd, filePath]))"

text \<open>
  \<^verbatim>\<open>getRemoteUri\<close>: the locator handed to the remote file primitive, kept as the text
  that \<^verbatim>\<open>vscode.Uri.parse\<close> receives.
\<close>

definition getRemoteUri :: "config \<Rightarrow> string \<Rightarrow> exn + string" where
  "getRemoteUri cfg filePath =
     (let host = getSshHost cfg
      in case toRemotePath cfg filePath of
           Inl e \<Rightarrow> Inl e
         | Inr resolved \<Rightarrow> Inr (''vscode-remote://ssh-remote+'' @ host @ resolved))"

definition shellEscape :: "string \<Rightarrow> string" where
  "shellEscape str = [SQ] @ replaceAllChar SQ [SQ, BSL, SQ, SQ] str @ [SQ]"

text \<open>\<^verbatim>\<open>truncateOutput\<close>; \<^verbatim>\<open>text.slice(-half)\<close> is the last \<open>half\<close> characters.\<close>

definition truncateOutput :: "string \<Rightarrow> nat \<Rightarrow> string" where
  "truncateOutput txt maxChars =
     (if length txt \<le> maxChars then txt
      else
        let half = maxChars div 2
        in take half txt @ [NL, NL] @ ''... [truncated] ...'' @ [NL, NL]
           @ (if half = 0 then txt else drop (length txt - half) txt))"

definition MAX_CHARS :: nat where
  "MAX_CHARS = 30000"

section \<open>More of the JavaScript string library\<close>

text \<open>
  \<^verbatim>\<open>s.split(sep)\<close> for a text separator. With a non-empty separator the text is scanned
  from the left and the scan resumes after each match; with the empty separator the
  result is the list of the code units (empty for the empty text).
\<close>

fun splitBy :: "string \<Rightarrow> string \<Rightarrow> string \<Rightarrow> string list" where
  "splitBy sep cur [] = [rev cur]"
| "splitBy sep cur (c # cs) =
     (if startsWith (c # cs) sep then rev cur # splitBy sep [] (drop (length sep - 1) cs)
      else splitBy sep (c # cur) cs)"

definition jsSplit :: "string \<Rightarrow> string \<Rightarrow> string list" where
  "jsSplit s sep = (if sep = [] then map (\<lambda>c. [c]) s else splitBy sep [] s)"

text \<open>\<^verbatim>\<open>s.indexOf(x)\<close>, \<open>None\<close> for -1.\<close>

fun indexOf :: "string \<Rightarrow> string \<Rightarrow> nat option" where
  "indexOf [] x = (if x = [] then Some 0 else None)"
| "indexOf (c # cs) x =
     (if startsWith (c # cs) x then Some 0 else map_option Suc (indexOf cs x))"

text \<open>
  The replacement text of \<^verbatim>\<open>String.prototype.replace\<close> is a template
  (\<^verbatim>\<open>GetSubstitution\<close> of ECMAScript): \<^verbatim>\<open>$$\<close> is a dollar sign, \<^verbatim>\<open>$&\<close> the matched text,
  \<^verbatim>\<open>$`\<close> the text before the match and \<^verbatim>\<open>$'\<close> the text after it. A pattern that is a
  string has no capture groups, so \<^verbatim>\<open>$1\<close> and \<^verbatim>\<open>$<\<close> stay as they are.
\<close>

fun getSubstitution :: "string \<Rightarrow> string \<Rightarrow> string \<Rightarrow> string \<Rightarrow> string" where
  "getSubstitution matched preceding following [] = []"
| "getSubstitution matched preceding following [c] = [c]"
| "getSubstitution matched preceding following (c # d # r) =
     (if c = DOLLAR \<and> d = DOLLAR then DOLLAR # getSubstitution matched preceding following r
      else if c = DOLLAR \<and> d = CHR ''&'' then matched @ getSubstitution matched preceding following r
      else if c = DOLLAR \<and> d = CHR 0x60 then preceding @ getSubstitution matched preceding following r
      else if c = DOLLAR \<and> d = SQ then following @ getSubstitution matched preceding following r
      else c # getSubstitution matched preceding following (d # r))"

text \<open>\<^verbatim>\<open>s.replace(pattern, replacement)\<close> with a string pattern: the first match only.\<close>

definition jsReplace :: "string \<Rightarrow> string \<Rightarrow> string \<Rightarrow> string" where
  "jsReplace s pattern replacement =
     (case indexOf s pattern of
        None \<Rightarrow> s
      | Some pos \<Rightarrow>
          let preceding = take pos s; following = drop (pos + length pattern) s
          in preceding @ getSubstitution pattern preceding following replacement @ following)"

text \<open>\<^verbatim>\<open>s.trim()\<close> and \<^verbatim>\<open>parseInt(s, 10)\<close> (\<open>None\<close> for \<^verbatim>\<open>NaN\<close>).\<close>

definition isWhiteSpace :: "char \<Rightarrow> bool" where
  "isWhiteSpace c =
     (c = CHR 0x09 \<or> c = CHR 0x0A \<or> c = CHR 0x0B \<or> c = CHR 0x0C \<or> c = CHR 0x0D
      \<or> c = CHR 0x20 \<or> c = CHR 0xA0)"

definition trim :: "string \<Rightarrow> string" where
  "trim s = rev (dropWhile isWhiteSpace (rev (dropWhile isWhiteSpace s)))"

definition isDigit :: "char \<Rightarrow> bool" where
  "isDigit c = (48 \<le> (of_char c :: nat) \<and> (of_char c :: nat) \<le> 57)"

definition digitsValue :: "string \<Rightarrow> nat" where
  "digitsValue ds = foldl (\<lambda>a c. 10 * a + (of_char c - 48)) 0 ds"

definition parseInt10 :: "string \<Rightarrow> int option" where
  "parseInt10 s =
     (let t = dropWhile isWhiteSpace s;
          negative = startsWith t ''-'';
          u = (if startsWith t ''-'' \<or> startsWith t ''+'' then tl t else t);
          ds = takeWhile isDigit u
      in if ds = [] then None
         else Some (if negative then - int (digitsValue ds) else int (digitsValue ds)))"

section \<open>The state of the bridge\<close>

record cache_entry =
  ce_content :: string
  ce_timestamp :: int

record edit_override =
  eo_remotePath :: string
  eo_content :: string
  eo_timestamp :: int

text \<open>
  The module-level variables: \<^verbatim>\<open>_writeCache\<close>, \<^verbatim>\<open>_editOverride\<close>, whether
  \<^verbatim>\<open>_remoteTerminal\<close> holds a terminal, \<^verbatim>\<open>_terminalReady\<close> and \<^verbatim>\<open>_execCounter\<close>.
\<close>

record bridge =
  writeCache :: "string \<rightharpoonup> cache_entry"
  editOverride :: "edit_override option"
  remoteTerminal :: bool
  terminalReady :: bool
  execCounter :: nat

definition WRITE_CACHE_TTL :: int where
  "WRITE_CACHE_TTL = 10000"

definition EDIT_OVERRIDE_TTL :: int where
  "EDIT_OVERRIDE_TTL = 10000"

text \<open>The first argument of the next four functions is the value of \<^verbatim>\<open>Date.now()\<close>.\<close>

definition cacheWrite :: "int \<Rightarrow> string \<Rightarrow> string \<Rightarrow> bridge \<Rightarrow> bridge" where
  "cacheWrite t remotePath content st =
     st\<lparr>writeCache := (writeCache st)(remotePath \<mapsto> \<lparr>ce_content = content, ce_timestamp = t\<rparr>)\<rparr>"

definition getCachedWrite :: "int \<Rightarrow> string \<Rightarrow> bridge \<Rightarrow> string option \<times> bridge" where
  "getCachedWrite t remotePath st =
     (case writeCache st remotePath of
        None \<Rightarrow> (None, st)
      | Some entry \<Rightarrow>
          if t - ce_timestamp entry > WRITE_CACHE_TTL
          then (None, st\<lparr>writeCache := (writeCache st)(remotePath := None)\<rparr>)
          else (Some (ce_content entry), st))"

definition setEditOverride :: "int \<Rightarrow> string \<Rightarrow> string \<Rightarrow> bridge \<Rightarrow> bridge" where
  "setEditOverride t remotePath content st =
     st\<lparr>editOverride :=
          Some \<lparr>eo_remotePath = remotePath, eo_content = content, eo_timestamp = t\<rparr>\<rparr>"

definition consumeEditOverride :: "int \<Rightarrow> string \<Rightarrow> bridge \<Rightarrow> string option \<times> bridge" where
  "consumeEditOverride t remotePath st =
     (case editOverride st of
        None \<Rightarrow> (None, st)
      | Some ov \<Rightarrow>
          if eo_remotePath ov = remotePath \<and> t - eo_timestamp ov < EDIT_OVERRIDE_TTL
          then (Some (eo_content ov), st\<lparr>editOverride := None\<rparr>)
          else if t - eo_timestamp ov \<ge> EDIT_OVERRIDE_TTL
          then (None, st\<lparr>editOverride := None\<rparr>)
          else (None, st))"

text \<open>When the cache entry of a path was written, if there is one.\<close>

definition cachedAt :: "bridge \<Rightarrow> string \<Rightarrow> int option" where
  "cachedAt st remotePath = map_option ce_timestamp (writeCache st remotePath)"

section \<open>The remote transport and the other collaborators\<close>

text \<open>
  Everything outside the module is a value of an arbitrary type \<open>'w\<close> (the world: the
  remote host, the editor, the clock) together with the operations the module calls on
  it. Nothing is assumed about them: a read may fail or return stale text, a write may
  fail. A file's bytes are taken as already decoded text. \<open>now\<close> is \<^verbatim>\<open>Date.now()\<close>; the
  world changes only where the module calls a collaborator, so the code between two
  such calls runs at one instant. The collaborators do not call back into the module:
  the module's own state is threaded beside the world. \<open>reviewEdit\<close> and
  \<open>onFileUpdated\<close> are the two optional callbacks given to \<^verbatim>\<open>registerTools\<close>; the
  notifier's own exceptions are swallowed by the module, so it only changes the world.
\<close>

record review =
  accepted :: bool
  finalContent :: string

text \<open>
  What a spawned \<^verbatim>\<open>ssh\<close> process does, in the order the module's callbacks see it:
  output chunks, the timeout timer set by the module, the \<^verbatim>\<open>close\<close> event with the
  exit code (\<open>None\<close> for \<^verbatim>\<open>null\<close>) and the \<^verbatim>\<open>error\<close> event with the error's code.
\<close>

datatype ssh_event =
    StdoutData string
  | StderrData string
  | TimerFired
  | Close "int option"
  | ProcError string exn

record 'w transport =
  now :: "'w \<Rightarrow> int"
  sleep :: "'w \<Rightarrow> int \<Rightarrow> 'w"
  readFile :: "'w \<Rightarrow> string \<Rightarrow> (exn + string) \<times> 'w"
  writeFile :: "'w \<Rightarrow> string \<Rightarrow> string \<Rightarrow> (exn + unit) \<times> 'w"
  findFiles :: "'w \<Rightarrow> string \<Rightarrow> string \<Rightarrow> nat \<Rightarrow> (exn + string list) \<times> 'w"
  terminalDisposed :: "'w \<Rightarrow> bool"
  createTerminal :: "'w \<Rightarrow> 'w"
  sendText :: "'w \<Rightarrow> string \<Rightarrow> 'w"
  spawnSsh :: "'w \<Rightarrow> string list \<Rightarrow> int \<Rightarrow> ssh_event list \<times> 'w"
  reviewEdit :: "('w \<Rightarrow> string \<Rightarrow> string list \<Rightarrow> string \<Rightarrow> string \<Rightarrow> (exn + review) \<times> 'w) option"
  onFileUpdated :: "('w \<Rightarrow> string \<Rightarrow> string \<Rightarrow> string \<Rightarrow> 'w) option"

record exec_result =
  stdout :: string
  stderr :: string
  exitCode :: "int option"

record tool_result =
  outputText :: string
  isError :: bool

section \<open>Remote command execution\<close>

definition getRemoteTerminal :: "'w transport \<Rightarrow> bridge \<Rightarrow> 'w \<Rightarrow> bridge \<times> 'w" where
  "getRemoteTerminal tr st w =
     (if remoteTerminal st \<and> \<not> terminalDisposed tr w then (st, w)
      else (st\<lparr>remoteTerminal := True, terminalReady := False\<rparr>, createTerminal tr w))"

text \<open>A read whose failure is swallowed (\<^verbatim>\<open>try { ... } catch (_) {}\<close>), with a default.\<close>

definition readOrDefault :: "'w transport \<Rightarrow> 'w \<Rightarrow> exn + string \<Rightarrow> string \<Rightarrow> string \<times> 'w" where
  "readOrDefault tr w uri dflt =
     (case uri of
        Inl _ \<Rightarrow> (dflt, w)
      | Inr u \<Rightarrow> (case readFile tr w u of (Inl _, w') \<Rightarrow> (dflt, w') | (Inr d, w') \<Rightarrow> (d, w')))"

text \<open>
  The polling loop of \<^verbatim>\<open>remoteExec\<close>. It may run forever (when the clock does not
  advance), so the result is an option: \<open>None\<close> is a loop that never ends,
  \<open>Some (None, w)\<close> a loop that ran out of time, \<open>Some (Some r, w)\<close> a result.
\<close>

partial_function (option) pollLoop ::
  "'w transport \<Rightarrow> config \<Rightarrow> string \<Rightarrow> string \<Rightarrow> int \<Rightarrow> int \<Rightarrow> 'w \<Rightarrow> (exec_result option \<times> 'w) option"
where
  "pollLoop tr cfg tmpBase exitFileUri startTime timeoutMs w =
     (if now tr w - startTime < timeoutMs then
        (case readFile tr (sleep tr w 300) exitFileUri of
           (Inl _, w2) \<Rightarrow> pollLoop tr cfg tmpBase exitFileUri startTime timeoutMs w2
         | (Inr exitData, w2) \<Rightarrow>
             (let exitStr = trim exitData
              in if exitStr = [] then pollLoop tr cfg tmpBase exitFileUri startTime timeoutMs w2
                 else
                   (let code = parseInt10 exitStr;
                        (out, w3) = readOrDefault tr w2 (getRemoteUri cfg (tmpBase @ ''.out'')) [];
                        (err, w4) = readOrDefault tr w3 (getRemoteUri cfg (tmpBase @ ''.err'')) [];
                        w5 = sendText tr w4
                               (''rm -f '' @ tmpBase @ ''.out '' @ tmpBase @ ''.err '' @ tmpBase @ ''.exit'')
                    in Some (Some \<lparr>stdout = out, stderr = err,
                                    exitCode = Some (case code of None \<Rightarrow> 1 | Some c \<Rightarrow> c)\<rparr>, w5))))
      else Some (None, w))"

declare pollLoop.simps [code]

text \<open>\<^verbatim>\<open>cwd ? `cd ${shellEscape(cwd)} && ` : ""\<close>, in \<^verbatim>\<open>remoteExec\<close> and \<^verbatim>\<open>sshExec\<close>.\<close>

definition cdPart :: "string \<Rightarrow> string" where
  "cdPart cwd = (if cwd \<noteq> [] then ''cd '' @ shellEscape cwd @ '' && '' else [])"

text \<open>
  The first half of \<^verbatim>\<open>remoteExec\<close> (lines 141-152): the sentinel base name, the
  terminal, its warm-up and the wrapped command sent to it.
\<close>

definition submit ::
  "'w transport \<Rightarrow> bridge \<Rightarrow> 'w \<Rightarrow> string \<Rightarrow> string \<Rightarrow> string \<times> bridge \<times> 'w"
where
  "submit tr st w command cwd =
     (let st1 = st\<lparr>execCounter := execCounter st + 1\<rparr>;
          tmpBase = ''/tmp/.claude_exec_'' @ numberToString (now tr w) @ ''_''
                      @ numberToString (int (execCounter st1));
          (st2, w1) = getRemoteTerminal tr st1 w;
          (st3, w2) = (if \<not> terminalReady st2
                       then (st2\<lparr>terminalReady := True\<rparr>, sleep tr w1 500) else (st2, w1));
          fullCmd = ''('' @ cdPart cwd @ command @ '') > '' @ tmpBase @ ''.out 2> '' @ tmpBase
                      @ ''.err; echo $? > '' @ tmpBase @ ''.exit''
      in (tmpBase, st3, sendText tr w2 fullCmd))"

text \<open>The second half (lines 154-186): the polling loop, then the timeout.\<close>

definition remoteExec ::
  "'w transport \<Rightarrow> config \<Rightarrow> bridge \<Rightarrow> 'w \<Rightarrow> string \<Rightarrow> string \<Rightarrow> int
     \<Rightarrow> ((exn + exec_result) \<times> bridge \<times> 'w) option"
where
  "remoteExec tr cfg st w command cwd timeoutMs =
     (case submit tr st w command cwd of
        (tmpBase, st3, w3) \<Rightarrow>
          (case getRemoteUri cfg (tmpBase @ ''.exit'') of
             Inl e \<Rightarrow> Some (Inl e, st3, w3)
           | Inr exitFileUri \<Rightarrow>
               (case pollLoop tr cfg tmpBase exitFileUri (now tr w3) timeoutMs w3 of
                  None \<Rightarrow> None
                | Some (Some r, w4) \<Rightarrow> Some (Inr r, st3, w4)
                | Some (None, w4) \<Rightarrow>
                    Some (Inl (Error (''Command timed out after '' @ numberToString timeoutMs @ ''ms'')),
                          st3,
                          sendText tr w4 (''kill %1 2>/dev/null; rm -f '' @ tmpBase @ ''.out ''
                                            @ tmpBase @ ''.err '' @ tmpBase @ ''.exit'')))))"

text \<open>\<^verbatim>\<open>identityFile.replace(/^~/, os.homedir())\<close>: the home directory is a template.\<close>

definition buildSshArgs :: "config \<Rightarrow> string \<Rightarrow> string list" where
  "buildSshArgs cfg host =
     (if sshConfigFile cfg \<noteq> [] then [''-F'', sshConfigFile cfg] else [])
     @ (if sshIdentityFile cfg \<noteq> [] then
          [''-i'', (if startsWith (sshIdentityFile cfg) ''~''
                    then getSubstitution ''~'' [] (tl (sshIdentityFile cfg)) (homedir cfg)
                           @ tl (sshIdentityFile cfg)
                    else sshIdentityFile cfg)]
        else [])
     @ sshExtraArgs cfg
     @ [''-o'', ''BatchMode=yes'', ''-o'', ''ConnectTimeout=10'', ''-o'', ''StrictHostKeyChecking=no'']
     @ [''--'', host]"

definition MAX_BUFFER :: nat where
  "MAX_BUFFER = 5 * 1024 * 1024"

text \<open>
  The callbacks of \<^verbatim>\<open>sshExec\<close> over the events of the process; the promise settles at
  the first \<^verbatim>\<open>close\<close> or \<^verbatim>\<open>error\<close> event, and never if there is none.
\<close>

fun sshSettle :: "int \<Rightarrow> ssh_event list \<Rightarrow> string \<Rightarrow> string \<Rightarrow> bool \<Rightarrow> (exn + exec_result) option" where
  "sshSettle timeoutMs [] out err killed = None"
| "sshSettle timeoutMs (StdoutData d # es) out err killed =
     sshSettle timeoutMs es (if length out < MAX_BUFFER then out @ d else out) err killed"
| "sshSettle timeoutMs (StderrData d # es) out err killed =
     sshSettle timeoutMs es out (if length err < MAX_BUFFER then err @ d else err) killed"
| "sshSettle timeoutMs (TimerFired # es) out err killed = sshSettle timeoutMs es out err True"
| "sshSettle timeoutMs (Close code # es) out err killed =
     Some (if killed
           then Inl (Error (''SSH command timed out after '' @ numberToString timeoutMs @ ''ms''))
           else Inr \<lparr>stdout = out, stderr = err, exitCode = code\<rparr>)"
| "sshSettle timeoutMs (ProcError code e # es) out err killed =
     Some (Inl (if code = ''ENOENT'' then Error ''SSH client not found.'' else e))"

definition sshExec ::
  "'w transport \<Rightarrow> config \<Rightarrow> 'w \<Rightarrow> string \<Rightarrow> string \<Rightarrow> string \<Rightarrow> int \<Rightarrow> ((exn + exec_result) \<times> 'w) option"
where
  "sshExec tr cfg w host command cwd timeoutMs =
     (let fullCmd = cdPart cwd @ command;
          sshArgs = buildSshArgs cfg host @ [fullCmd];
          (events, w1) = spawnSsh tr w sshArgs timeoutMs
      in map_option (\<lambda>r. (r, w1)) (sshSettle timeoutMs events [] [] False))"

definition execRemoteCommand ::
  "'w transport \<Rightarrow> config \<Rightarrow> bridge \<Rightarrow> 'w \<Rightarrow> string \<Rightarrow> string \<Rightarrow> int
     \<Rightarrow> ((exn + exec_result) \<times> bridge \<times> 'w) option"
where
  "execRemoteCommand tr cfg st w command cwd timeoutMs =
     (if useSSHExec cfg then
        (let host = getSshHost cfg
         in if host = [] then Some (Inl (Error ''No SSH host configured''), st, w)
            else map_option (\<lambda>(r, w1). (r, st, w1)) (sshExec tr cfg w host command cwd timeoutMs))
      else remoteExec tr cfg st w command cwd timeoutMs)"

definition DEFAULT_TIMEOUT :: int where
  "DEFAULT_TIMEOUT = 120000"

section \<open>The tool handlers\<close>

text \<open>
  Each handler is a \<^verbatim>\<open>try\<close> block and a \<^verbatim>\<open>catch\<close>. The \<^verbatim>\<open>try\<close> block is a function
  \<open>..._body\<close> whose result is \<open>Inl err\<close> where the source throws; the handler turns that
  into an error result. The bridge state and the world are returned in both cases, as
  they are when the exception is thrown.
\<close>

definition catchAs :: "string \<Rightarrow> exn + tool_result \<Rightarrow> tool_result" where
  "catchAs prefix r =
     (case r of
        Inl err \<Rightarrow> \<lparr>outputText = prefix @ message err, isError = True\<rparr>
      | Inr res \<Rightarrow> res)"

definition success :: "string \<Rightarrow> tool_result" where
  "success txt = \<lparr>outputText = txt, isError = False\<rparr>"

definition failure :: "string \<Rightarrow> tool_result" where
  "failure txt = \<lparr>outputText = txt, isError = True\<rparr>"

text \<open>\<^verbatim>\<open>Buffer.from(s, "utf8").length\<close> for code units below 256.\<close>

definition utf8Length :: "string \<Rightarrow> nat" where
  "utf8Length s = sum_list (map (\<lambda>c. if (of_char c :: nat) < 128 then 1 else 2) s)"

text \<open>\<^verbatim>\<open>if (onFileUpdated) { try { onFileUpdated(...) } catch (_) {} }\<close>\<close>

definition notify :: "'w transport \<Rightarrow> 'w \<Rightarrow> string \<Rightarrow> string \<Rightarrow> string \<Rightarrow> 'w" where
  "notify tr w remotePath oldText newText =
     (case onFileUpdated tr of None \<Rightarrow> w | Some f \<Rightarrow> f w remotePath oldText newText)"

subsection \<open>\<^verbatim>\<open>read_file\<close>\<close>

text \<open>The slice of lines 278-283; \<^verbatim>\<open>limit ? ... : ...\<close> takes the limit 0 as absent.\<close>

definition sliceLines :: "string \<Rightarrow> int option \<Rightarrow> int option \<Rightarrow> string" where
  "sliceLines txt offset limit =
     (if offset \<noteq> None \<or> limit \<noteq> None then
        (let lines = splitChar NL txt;
             start = (case offset of None \<Rightarrow> 1 | Some off \<Rightarrow> off) - 1;
             end = (case limit of
                      None \<Rightarrow> int (length lines)
                    | Some l \<Rightarrow> if l \<noteq> 0 then start + l else int (length lines))
         in joinWith [NL] (arraySlice lines start end))
      else txt)"

definition read_file_body ::
  "'w transport \<Rightarrow> config \<Rightarrow> bridge \<Rightarrow> 'w \<Rightarrow> string \<Rightarrow> int option \<Rightarrow> int option
     \<Rightarrow> (exn + tool_result) \<times> bridge \<times> 'w"
where
  "read_file_body tr cfg st w file_path offset limit =
     (case toRemotePath cfg file_path of
        Inl e \<Rightarrow> (Inl e, st, w)
      | Inr remotePath \<Rightarrow>
          (let (cached, st1) = getCachedWrite (now tr w) remotePath st
           in case (case cached of
                      Some t \<Rightarrow> (Inr t, w)
                    | None \<Rightarrow>
                        (case getRemoteUri cfg file_path of
                           Inl e \<Rightarrow> (Inl e, w)
                         | Inr uri \<Rightarrow> readFile tr w uri)) of
                (Inl e, w1) \<Rightarrow> (Inl e, st1, w1)
              | (Inr txt, w1) \<Rightarrow>
                  (Inr (success (truncateOutput (sliceLines txt offset limit) MAX_CHARS)), st1, w1)))"

definition read_file ::
  "'w transport \<Rightarrow> config \<Rightarrow> bridge \<Rightarrow> 'w \<Rightarrow> string \<Rightarrow> int option \<Rightarrow> int option
     \<Rightarrow> tool_result \<times> bridge \<times> 'w"
where
  "read_file tr cfg st w file_path offset limit =
     (case read_file_body tr cfg st w file_path offset limit of
        (r, st', w') \<Rightarrow> (catchAs ''Error reading file: '' r, st', w'))"

subsection \<open>\<^verbatim>\<open>write_file\<close>\<close>

text \<open>
  The prior content for the update notification, read the same way in both branches of
  \<^verbatim>\<open>write_file\<close>: \<^verbatim>\<open>getCachedWrite(remotePath) || ""\<close>, then a best-effort read when
  that is empty.
\<close>

definition priorContent ::
  "'w transport \<Rightarrow> bridge \<Rightarrow> 'w \<Rightarrow> string \<Rightarrow> string \<Rightarrow> string \<times> bridge \<times> 'w"
where
  "priorContent tr st w remotePath uri =
     (let (cached, st1) = getCachedWrite (now tr w) remotePath st;
          oldText = (case cached of None \<Rightarrow> [] | Some t \<Rightarrow> t)
      in if oldText = [] then
           (case readOrDefault tr w (Inr uri) [] of (t, w1) \<Rightarrow> (t, st1, w1))
         else (oldText, st1, w))"

text \<open>The write, the cache update and the notification that end every successful path.\<close>

definition commit ::
  "'w transport \<Rightarrow> bridge \<Rightarrow> 'w \<Rightarrow> string \<Rightarrow> string \<Rightarrow> string \<Rightarrow> string \<Rightarrow> string
     \<Rightarrow> (exn + tool_result) \<times> bridge \<times> 'w"
where
  "commit tr st w uri remotePath oldText newText msg =
     (case writeFile tr w uri newText of
        (Inl e, w1) \<Rightarrow> (Inl e, st, w1)
      | (Inr _, w1) \<Rightarrow>
          (Inr (success msg), cacheWrite (now tr w1) remotePath newText st,
           notify tr w1 remotePath oldText newText))"

definition write_file_body ::
  "'w transport \<Rightarrow> config \<Rightarrow> bridge \<Rightarrow> 'w \<Rightarrow> string \<Rightarrow> string \<Rightarrow> (exn + tool_result) \<times> bridge \<times> 'w"
where
  "write_file_body tr cfg st w file_path content =
     (case getRemoteUri cfg file_path of
        Inl e \<Rightarrow> (Inl e, st, w)
      | Inr uri \<Rightarrow>
     (case toRemotePath cfg file_path of
        Inl e \<Rightarrow> (Inl e, st, w)
      | Inr remotePath \<Rightarrow>
     (case consumeEditOverride (now tr w) remotePath st of
        (Some override, st1) \<Rightarrow>
          (case priorContent tr st1 w remotePath uri of
             (oldText, st2, w1) \<Rightarrow>
               commit tr st2 w1 uri remotePath oldText override
                 (''Successfully wrote '' @ numberToString (int (utf8Length override))
                    @ '' bytes to '' @ file_path))
      | (None, st1) \<Rightarrow>
          (case priorContent tr st1 w remotePath uri of
             (oldText, st2, w1) \<Rightarrow>
               (case reviewEdit tr of
                  Some gate \<Rightarrow>
                    (case gate w1 ''write_file'' [file_path, content] oldText content of
                       (Inl e, w2) \<Rightarrow> (Inl e, st2, w2)
                     | (Inr rv, w2) \<Rightarrow>
                         if \<not> accepted rv
                         then (Inr (failure (''Write rejected by user for '' @ file_path)), st2, w2)
                         else commit tr st2 w2 uri remotePath oldText (finalContent rv)
                                (''Successfully wrote ''
                                   @ numberToString (int (utf8Length (finalContent rv)))
                                   @ '' bytes to '' @ file_path))
                | None \<Rightarrow>
                    commit tr st2 w1 uri remotePath oldText content
                      (''Successfully wrote '' @ numberToString (int (utf8Length content))
                         @ '' bytes to '' @ file_path))))))"

definition write_file ::
  "'w transport \<Rightarrow> config \<Rightarrow> bridge \<Rightarrow> 'w \<Rightarrow> string \<Rightarrow> string \<Rightarrow> tool_result \<times> bridge \<times> 'w"
where
  "write_file tr cfg st w file_path content =
     (case write_file_body tr cfg st w file_path content of
        (r, st', w') \<Rightarrow> (catchAs ''Error writing file: '' r, st', w'))"

subsection \<open>\<^verbatim>\<open>edit_file\<close>\<close>

definition edit_file_body ::
  "'w transport \<Rightarrow> config \<Rightarrow> bridge \<Rightarrow> 'w \<Rightarrow> string \<Rightarrow> string \<Rightarrow> string
     \<Rightarrow> (exn + tool_result) \<times> bridge \<times> 'w"
where
  "edit_file_body tr cfg st w file_path old_string new_string =
     (case getRemoteUri cfg file_path of
        Inl e \<Rightarrow> (Inl e, st, w)
      | Inr uri \<Rightarrow>
     (case toRemotePath cfg file_path of
        Inl e \<Rightarrow> (Inl e, st, w)
      | Inr remotePath \<Rightarrow>
     (case consumeEditOverride (now tr w) remotePath st of
        (Some override, st1) \<Rightarrow>
          (let (cached, st2) = getCachedWrite (now tr w) remotePath st1;
               (oldText, w1) = (case cached of
                                  Some t \<Rightarrow> (t, w)
                                | None \<Rightarrow> readOrDefault tr w (Inr uri) [])
           in commit tr st2 w1 uri remotePath oldText override
                (''Successfully edited '' @ file_path))
      | (None, st1) \<Rightarrow>
          (let (cached, st2) = getCachedWrite (now tr w) remotePath st1
           in case (case cached of Some t \<Rightarrow> (Inr t, w) | None \<Rightarrow> readFile tr w uri) of
                (Inl e, w1) \<Rightarrow> (Inl e, st2, w1)
              | (Inr oldText, w1) \<Rightarrow>
                  if \<not> str_includes oldText old_string then
                    (Inr (failure (''Error: old_string not found in '' @ file_path)), st2, w1)
                  else
                    (let count = int (length (jsSplit oldText old_string)) - 1
                     in if count > 1 then
                          (Inr (failure (''Error: old_string found '' @ numberToString count
                                           @ '' times in '' @ file_path
                                           @ ''. Provide more context to make it unique.'')),
                           st2, w1)
                        else
                          (let newText = jsReplace oldText old_string new_string
                           in case reviewEdit tr of
                                Some gate \<Rightarrow>
                                  (case gate w1 ''edit_file'' [file_path, old_string, new_string]
                                          oldText newText of
                                     (Inl e, w2) \<Rightarrow> (Inl e, st2, w2)
                                   | (Inr rv, w2) \<Rightarrow>
                                       if \<not> accepted rv
                                       then (Inr (failure (''Edit rejected by user for '' @ file_path)),
                                             st2, w2)
                                       else commit tr st2 w2 uri remotePath oldText (finalContent rv)
                                              (''Successfully edited '' @ file_path))
                              | None \<Rightarrow>
                                  commit tr st2 w1 uri remotePath oldText newText
                                    (''Successfully edited '' @ file_path)))))))"

definition edit_file ::
  "'w transport \<Rightarrow> config \<Rightarrow> bridge \<Rightarrow> 'w \<Rightarrow> string \<Rightarrow> string \<Rightarrow> string
     \<Rightarrow> tool_result \<times> bridge \<times> 'w"
where
  "edit_file tr cfg st w file_path old_string new_string =
     (case edit_file_body tr cfg st w file_path old_string new_string of
        (r, st', w') \<Rightarrow> (catchAs ''Error editing file: '' r, st', w'))"

subsection \<open>\<^verbatim>\<open>glob\<close>\<close>

text \<open>
  \<^verbatim>\<open>toRemotePath(searchPath || getRemoteCwd())\<close>, shared by \<^verbatim>\<open>glob\<close>, \<^verbatim>\<open>grep\<close> and
  \<^verbatim>\<open>bash\<close>: an absent or empty path is replaced by the workspace root.
\<close>

definition resolveDir :: "config \<Rightarrow> string option \<Rightarrow> exn + string" where
  "resolveDir cfg searchPath =
     (case (case searchPath of
              Some p \<Rightarrow> if p \<noteq> [] then Inr p else getRemoteCwd cfg
            | None \<Rightarrow> getRemoteCwd cfg) of
        Inl e \<Rightarrow> Inl e
      | Inr p \<Rightarrow> toRemotePath cfg p)"

text \<open>\<^verbatim>\<open>paths.sort()\<close> orders texts by their code units, a prefix first.\<close>

definition glob_body ::
  "'w transport \<Rightarrow> config \<Rightarrow> bridge \<Rightarrow> 'w \<Rightarrow> string \<Rightarrow> string option
     \<Rightarrow> (exn + tool_result) \<times> bridge \<times> 'w"
where
  "glob_body tr cfg st w pattern searchPath =
     (case resolveDir cfg searchPath of
        Inl e \<Rightarrow> (Inl e, st, w)
      | Inr base \<Rightarrow>
     (case getRemoteUri cfg base of
        Inl e \<Rightarrow> (Inl e, st, w)
      | Inr folderUri \<Rightarrow>
     (case findFiles tr w folderUri pattern 1000 of
        (Inl e, w1) \<Rightarrow> (Inl e, st, w1)
      | (Inr files, w1) \<Rightarrow>
          (let paths = sort files
           in (Inr (success (if paths \<noteq> [] then joinWith [NL] paths
                             else ''No files found matching pattern.'')), st, w1)))))"

definition glob ::
  "'w transport \<Rightarrow> config \<Rightarrow> bridge \<Rightarrow> 'w \<Rightarrow> string \<Rightarrow> string option \<Rightarrow> tool_result \<times> bridge \<times> 'w"
where
  "glob tr cfg st w pattern searchPath =
     (case glob_body tr cfg st w pattern searchPath of
        (r, st', w') \<Rightarrow> (catchAs ''Error globbing: '' r, st', w'))"

subsection \<open>\<^verbatim>\<open>grep\<close>\<close>

text \<open>
  The two command lines. An absent text counts as the empty one and an absent number as
  0 (both are skipped by the \<^verbatim>\<open>if\<close>s), and \<^verbatim>\<open>parseInt\<close> of an integer is that
  integer.
\<close>

definition orEmpty :: "string option \<Rightarrow> string" where
  "orEmpty s = (case s of None \<Rightarrow> [] | Some t \<Rightarrow> t)"

definition orZero :: "int option \<Rightarrow> int" where
  "orZero n = (case n of None \<Rightarrow> 0 | Some i \<Rightarrow> i)"

definition rgCommand :: "string \<Rightarrow> string option \<Rightarrow> int option \<Rightarrow> int option \<Rightarrow> string" where
  "rgCommand pattern include context max_results =
     ''rg --color=never --line-number''
     @ (if orEmpty include \<noteq> [] then '' --glob '' @ shellEscape (orEmpty include) else [])
     @ (if orZero context \<noteq> 0 then '' -C '' @ numberToString (orZero context) else [])
     @ (if orZero max_results \<noteq> 0 then '' --max-count '' @ numberToString (orZero max_results)
        else [])
     @ '' '' @ shellEscape pattern"

definition grepCommand :: "string \<Rightarrow> string option \<Rightarrow> int option \<Rightarrow> int option \<Rightarrow> string" where
  "grepCommand pattern include context max_results =
     ''grep -rn''
     @ (if orEmpty include \<noteq> [] then '' --include='' @ shellEscape (orEmpty include) else [])
     @ (if orZero context \<noteq> 0 then '' -C '' @ numberToString (orZero context) else [])
     @ (if orZero max_results \<noteq> 0 then '' -m '' @ numberToString (orZero max_results) else [])
     @ '' '' @ shellEscape pattern @ '' .''"

text \<open>Lines 517: is the search tool absent? Lines 527-540: the final result.\<close>

definition toolAbsent :: "exec_result \<Rightarrow> bool" where
  "toolAbsent result =
     (exitCode result = Some 127
      \<or> (stderr result \<noteq> [] \<and> str_includes (stderr result) ''command not found''))"

definition grepResult :: "exec_result \<Rightarrow> tool_result" where
  "grepResult result =
     (if exitCode result = Some 1 \<and> stdout result = [] then success ''No matches found.''
      else
        (case exitCode result of
           None \<Rightarrow> success (truncateOutput (stdout result) MAX_CHARS)
         | Some c \<Rightarrow>
             if c > 1 then
               failure (''grep error (exit '' @ numberToString c @ ''): ''
                          @ (if stderr result \<noteq> [] then stderr result else stdout result))
             else success (truncateOutput (stdout result) MAX_CHARS)))"

definition grep_body ::
  "'w transport \<Rightarrow> config \<Rightarrow> bridge \<Rightarrow> 'w \<Rightarrow> string \<Rightarrow> string option \<Rightarrow> string option
     \<Rightarrow> int option \<Rightarrow> int option \<Rightarrow> ((exn + tool_result) \<times> bridge \<times> 'w) option"
where
  "grep_body tr cfg st w pattern searchPath include context max_results =
     (case resolveDir cfg searchPath of
        Inl e \<Rightarrow> Some (Inl e, st, w)
      | Inr cwd \<Rightarrow>
          (case execRemoteCommand tr cfg st w (rgCommand pattern include context max_results)
                  cwd DEFAULT_TIMEOUT of
             None \<Rightarrow> None
           | Some (Inl e, st1, w1) \<Rightarrow> Some (Inl e, st1, w1)
           | Some (Inr result, st1, w1) \<Rightarrow>
               if toolAbsent result then
                 (case execRemoteCommand tr cfg st1 w1
                         (grepCommand pattern include context max_results) cwd DEFAULT_TIMEOUT of
                    None \<Rightarrow> None
                  | Some (Inl e, st2, w2) \<Rightarrow> Some (Inl e, st2, w2)
                  | Some (Inr result2, st2, w2) \<Rightarrow> Some (Inr (grepResult result2), st2, w2))
               else Some (Inr (grepResult result), st1, w1)))"

definition grep ::
  "'w transport \<Rightarrow> config \<Rightarrow> bridge \<Rightarrow> 'w \<Rightarrow> string \<Rightarrow> string option \<Rightarrow> string option
     \<Rightarrow> int option \<Rightarrow> int option \<Rightarrow> (tool_result \<times> bridge \<times> 'w) option"
where
  "grep tr cfg st w pattern searchPath include context max_results =
     map_option (\<lambda>(r, st', w'). (catchAs ''Error running grep: '' r, st', w'))
       (grep_body tr cfg st w pattern searchPath include context max_results)"

subsection \<open>\<^verbatim>\<open>bash\<close>\<close>

definition bashOutput :: "exec_result \<Rightarrow> string" where
  "bashOutput result =
     (let output = (if stdout result \<noteq> [] then stdout result else []);
          output = (if stderr result \<noteq> []
                    then output @ (if output \<noteq> [] then [NL] else []) @ stderr result
                    else output)
      in if output = [] then
           ''(no output, exit code ''
             @ (case exitCode result of None \<Rightarrow> ''null'' | Some c \<Rightarrow> numberToString c) @ '')''
         else output)"

text \<open>\<^verbatim>\<open>timeout || 120000\<close> in the \<^verbatim>\<open>bash\<close> handler.\<close>

definition bashTimeout :: "int option \<Rightarrow> int" where
  "bashTimeout timeout = (if orZero timeout \<noteq> 0 then orZero timeout else DEFAULT_TIMEOUT)"

definition bashCommand :: "string \<Rightarrow> string" where
  "bashCommand command = ''bash -c '' @ shellEscape command"

definition bash_body ::
  "'w transport \<Rightarrow> config \<Rightarrow> bridge \<Rightarrow> 'w \<Rightarrow> string \<Rightarrow> string option \<Rightarrow> int option
     \<Rightarrow> ((exn + tool_result) \<times> bridge \<times> 'w) option"
where
  "bash_body tr cfg st w command cwd timeout =
     (case resolveDir cfg cwd of
        Inl e \<Rightarrow> Some (Inl e, st, w)
      | Inr remoteCwd \<Rightarrow>
          (let timeoutMs = bashTimeout timeout;
               bashCmd = bashCommand command
           in case execRemoteCommand tr cfg st w bashCmd remoteCwd timeoutMs of
                None \<Rightarrow> None
              | Some (Inl e, st1, w1) \<Rightarrow> Some (Inl e, st1, w1)
              | Some (Inr result, st1, w1) \<Rightarrow>
                  Some (Inr (success (truncateOutput (bashOutput result) MAX_CHARS)), st1, w1)))"

definition bash ::
  "'w transport \<Rightarrow> config \<Rightarrow> bridge \<Rightarrow> 'w \<Rightarrow> string \<Rightarrow> string option \<Rightarrow> int option
     \<Rightarrow> (tool_result \<times> bridge \<times> 'w) option"
where
  "bash tr cfg st w command cwd timeout =
     map_option (\<lambda>(r, st', w'). (catchAs ''Error running bash: '' r, st', w'))
       (bash_body tr cfg st w command cwd timeout)"

section \<open>The shell's reading of a command line\<close>

text \<open>
  What the claims say about quoting is measured against the token recognition of the
  POSIX shell (Shell Command Language, 2.2 and 2.3), restricted to what the bridge's
  command lines use: blanks separate words, a backslash outside quotes keeps the next
  character (and removes a following newline), single quotes keep everything up to the
  next single quote, and \<^verbatim>\<open>&&\<close> is an operator. A character outside quotes that is
  neither of these nor plainly literal is not handled (\<open>None\<close>). This is a model of
  the shell, not of code of the module.
\<close>

datatype sh_token = Word string | AndIf

datatype sh_mode = Between | InWord | InQuote

definition shLiteral :: "char \<Rightarrow> bool" where
  "shLiteral c =
     (let n = (of_char c :: nat)
      in (48 \<le> n \<and> n \<le> 57) \<or> (65 \<le> n \<and> n \<le> 90) \<or> (97 \<le> n \<and> n \<le> 122)
         \<or> c = CHR ''-'' \<or> c = CHR ''_'' \<or> c = CHR ''='' \<or> c = CHR ''.'' \<or> c = CHR ''/''
         \<or> c = CHR '':'' \<or> c = CHR '','' \<or> c = CHR ''+'' \<or> c = CHR ''%'' \<or> c = CHR ''@'')"

definition shBlank :: "char \<Rightarrow> bool" where
  "shBlank c = (c = CHR 0x20 \<or> c = CHR 0x09 \<or> c = CHR 0x0A)"

text \<open>The word being read is \<open>cur\<close>; it is delimited when the mode is \<open>InWord\<close>.\<close>

definition delimit :: "sh_mode \<Rightarrow> string \<Rightarrow> sh_token list \<Rightarrow> sh_token list" where
  "delimit m cur toks = (if m = InWord then Word cur # toks else toks)"

fun posix_scan :: "sh_mode \<Rightarrow> string \<Rightarrow> string \<Rightarrow> sh_token list option" where
  "posix_scan InQuote cur [] = None"
| "posix_scan m cur [] = Some (delimit m cur [])"
| "posix_scan InQuote cur (c # cs) =
     (if c = SQ then posix_scan InWord cur cs else posix_scan InQuote (cur @ [c]) cs)"
| "posix_scan m cur (c # cs) =
     (if shBlank c then map_option (delimit m cur) (posix_scan Between [] cs)
      else if c = SQ then posix_scan InQuote cur cs
      else if c = BSL then
        (case cs of
           [] \<Rightarrow> None
         | d # ds \<Rightarrow> if d = NL then posix_scan m cur ds else posix_scan InWord (cur @ [d]) ds)
      else if c = CHR ''&'' then
        (case cs of
           [] \<Rightarrow> None
         | d # ds \<Rightarrow>
             if d = CHR ''&'' then map_option (\<lambda>toks. delimit m cur (AndIf # toks)) (posix_scan Between [] ds)
             else None)
      else if shLiteral c then posix_scan InWord (cur @ [c]) cs
      else None)"

definition posix_tokens :: "string \<Rightarrow> sh_token list option" where
  "posix_tokens s = posix_scan Between [] s"

section \<open>Names for the conditions of the claims\<close>

text \<open>No workspace root is configured: \<^verbatim>\<open>!folders || folders.length === 0\<close>.\<close>

definition noWorkspace :: "config \<Rightarrow> bool" where
  "noWorkspace cfg = (workspaceFolders cfg = None \<or> workspaceFolders cfg = Some [])"

definition noWorkspaceError :: exn where
  "noWorkspaceError = Error ''No workspace folder open; cannot determine remote working directory''"

text \<open>
  The polls of \<^verbatim>\<open>remoteExec\<close>, to say which of them sees the exit sentinel. A poll
  that starts in the world \<open>w\<close> waits 300 ms and reads the exit sentinel; it sees the
  sentinel when the read succeeds with a text that is not blank. \<open>pollWorld n\<close> is the
  world in which poll \<open>n\<close> starts when no earlier poll has seen the sentinel.
\<close>

definition inTime :: "'w transport \<Rightarrow> int \<Rightarrow> int \<Rightarrow> 'w \<Rightarrow> bool" where
  "inTime tr startTime timeoutMs w = (now tr w - startTime < timeoutMs)"

definition pollRead :: "'w transport \<Rightarrow> string \<Rightarrow> 'w \<Rightarrow> (exn + string) \<times> 'w" where
  "pollRead tr exitFileUri w = readFile tr (sleep tr w 300) exitFileUri"

definition sentinelSeen :: "'w transport \<Rightarrow> string \<Rightarrow> 'w \<Rightarrow> bool" where
  "sentinelSeen tr exitFileUri w =
     (case fst (pollRead tr exitFileUri w) of Inl _ \<Rightarrow> False | Inr d \<Rightarrow> trim d \<noteq> [])"

text \<open>
  The exit sentinel is there in the world \<open>w\<close>: a read of it at that moment gives a
  text that is not blank.
\<close>

definition sentinelThere :: "'w transport \<Rightarrow> string \<Rightarrow> 'w \<Rightarrow> bool" where
  "sentinelThere tr exitFileUri w =
     (case fst (readFile tr w exitFileUri) of Inl _ \<Rightarrow> False | Inr d \<Rightarrow> trim d \<noteq> [])"

fun pollWorld :: "'w transport \<Rightarrow> string \<Rightarrow> nat \<Rightarrow> 'w \<Rightarrow> 'w" where
  "pollWorld tr exitFileUri 0 w = w"
| "pollWorld tr exitFileUri (Suc n) w = pollWorld tr exitFileUri n (snd (pollRead tr exitFileUri w))"

text \<open>
  Polls \<open>0\<close> to \<open>n - 1\<close> all started in time and saw nothing; then either the time is
  up when poll \<open>n\<close> would start, or poll \<open>n\<close> starts in time and sees the sentinel.
\<close>

fun nothingBefore :: "'w transport \<Rightarrow> string \<Rightarrow> int \<Rightarrow> int \<Rightarrow> nat \<Rightarrow> 'w \<Rightarrow> bool" where
  "nothingBefore tr exitFileUri startTime timeoutMs 0 w = True"
| "nothingBefore tr exitFileUri startTime timeoutMs (Suc n) w =
     (inTime tr startTime timeoutMs w \<and> \<not> sentinelSeen tr exitFileUri w
      \<and> nothingBefore tr exitFileUri startTime timeoutMs n (snd (pollRead tr exitFileUri w)))"

definition timedOutAt :: "'w transport \<Rightarrow> string \<Rightarrow> int \<Rightarrow> int \<Rightarrow> nat \<Rightarrow> 'w \<Rightarrow> bool" where
  "timedOutAt tr exitFileUri startTime timeoutMs n w =
     (nothingBefore tr exitFileUri startTime timeoutMs n w
      \<and> \<not> inTime tr startTime timeoutMs (pollWorld tr exitFileUri n w))"

definition completedAt :: "'w transport \<Rightarrow> string \<Rightarrow> int \<Rightarrow> int \<Rightarrow> nat \<Rightarrow> 'w \<Rightarrow> bool" where
  "completedAt tr exitFileUri startTime timeoutMs n w =
     (nothingBefore tr exitFileUri startTime timeoutMs n w
      \<and> inTime tr startTime timeoutMs (pollWorld tr exitFileUri n w)
      \<and> sentinelSeen tr exitFileUri (pollWorld tr exitFileUri n w))"

text \<open>
  What the module reads from the three sentinels once the exit sentinel \<open>exitData\<close> was
  seen, in the world \<open>w\<close> after that read: the exit code (1 when it does not parse),
  and the two outputs, each empty when its sentinel cannot be read.
\<close>

definition sentinelResult :: "'w transport \<Rightarrow> config \<Rightarrow> string \<Rightarrow> string \<Rightarrow> 'w \<Rightarrow> exec_result" where
  "sentinelResult tr cfg tmpBase exitData w =
     (let out = readOrDefault tr w (getRemoteUri cfg (tmpBase @ ''.out'')) [];
          err = readOrDefault tr (snd out) (getRemoteUri cfg (tmpBase @ ''.err'')) []
      in \<lparr>stdout = fst out, stderr = fst err,
          exitCode = Some (case parseInt10 (trim exitData) of None \<Rightarrow> 1 | Some c \<Rightarrow> c)\<rparr>)"

text \<open>
  Time passes: a wait of \<open>d\<close> ms moves the clock forward by at least \<open>d\<close>, and a read
  does not move it back.
\<close>

definition clockAdvances :: "'w transport \<Rightarrow> bool" where
  "clockAdvances tr =
     ((\<forall>w d. now tr w + d \<le> now tr (sleep tr w d))
      \<and> (\<forall>w uri. now tr w \<le> now tr (snd (readFile tr w uri))))"

text \<open>The events at which the promise of \<^verbatim>\<open>sshExec\<close> settles.\<close>

fun isSettling :: "ssh_event \<Rightarrow> bool" where
  "isSettling (Close code) = True"
| "isSettling (ProcError code e) = True"
| "isSettling ev = False"

text \<open>
  The chunks that the process wrote to each of its two streams, in order, and what
  \<^verbatim>\<open>sshExec\<close> keeps of the chunks of one stream: a chunk is appended while the text
  kept so far is shorter than \<^verbatim>\<open>MAX_BUFFER\<close>.
\<close>

fun stdoutChunks :: "ssh_event list \<Rightarrow> string list" where
  "stdoutChunks [] = []"
| "stdoutChunks (StdoutData d # es) = d # stdoutChunks es"
| "stdoutChunks (ev # es) = stdoutChunks es"

fun stderrChunks :: "ssh_event list \<Rightarrow> string list" where
  "stderrChunks [] = []"
| "stderrChunks (StderrData d # es) = d # stderrChunks es"
| "stderrChunks (ev # es) = stderrChunks es"

definition kept :: "string list \<Rightarrow> string" where
  "kept chunks = foldl (\<lambda>acc d. if length acc < MAX_BUFFER then acc @ d else acc) [] chunks"

text \<open>
  The lines numbered \<open>lo\<close> through \<open>hi\<close> of a text whose lines are numbered from 1: the
  slice that claim C8 describes.
\<close>

definition linesNumbered :: "string list \<Rightarrow> int \<Rightarrow> int \<Rightarrow> string list" where
  "linesNumbered lines lo hi =
     map (\<lambda>n. lines ! nat (n - 1)) [max lo 1 .. min hi (int (length lines))]"

section \<open>Example inputs\<close>

text \<open>
  A workspace \<^verbatim>\<open>/srv/proj\<close> on the host \<^verbatim>\<open>box\<close>, opened by a user whose home
  directory is \<^verbatim>\<open>/home/u\<close>; it is the configuration of the concrete instances below.
\<close>

definition exampleConfig :: config where
  "exampleConfig =
     \<lparr>sshHost = ''box'', remoteAuthority = [], workspaceFolders = Some [''/srv/proj''],
      homedir = ''/home/u'', useSSHExec = False, sshIdentityFile = [], sshExtraArgs = [],
      sshConfigFile = []\<rparr>"

text \<open>
  A small concrete world: a clock, the remote files by locator and the lines sent to the
  terminal. Reads see the files as written, nothing fails but a read of an absent file,
  and no review gate or notifier is configured.
\<close>

record world =
  clock :: int
  files :: "string \<rightharpoonup> string"
  sent :: "string list"

definition exampleTransport :: "world transport" where
  "exampleTransport =
     \<lparr>now = clock,
      sleep = (\<lambda>w d. w\<lparr>clock := clock w + d\<rparr>),
      readFile = (\<lambda>w uri. case files w uri of
                              None \<Rightarrow> (Inl (Error ''ENOENT: no such file or directory''), w)
                            | Some d \<Rightarrow> (Inr d, w)),
      writeFile = (\<lambda>w uri d. (Inr (), w\<lparr>files := (files w)(uri \<mapsto> d)\<rparr>)),
      findFiles = (\<lambda>w folder pattern n. (Inr [], w)),
      terminalDisposed = (\<lambda>w. False),
      createTerminal = (\<lambda>w. w),
      sendText = (\<lambda>w line. w\<lparr>sent := sent w @ [line]\<rparr>),
      spawnSsh = (\<lambda>w args timeoutMs. ([], w)),
      reviewEdit = None,
      onFileUpdated = None\<rparr>"

definition emptyBridge :: bridge where
  "emptyBridge =
     \<lparr>writeCache = Map.empty, editOverride = None, remoteTerminal = False,
      terminalReady = False, execCounter = 0\<rparr>"

definition emptyWorld :: world where
  "emptyWorld = \<lparr>clock = 1000, files = Map.empty, sent = []\<rparr>"

text \<open>
  A bridge in which a reviewer's version of \<^verbatim>\<open>/srv/proj/notes.txt\<close> was stored at
  time 900, and the locator of that file.
\<close>

definition overrideBridge :: bridge where
  "overrideBridge = setEditOverride 900 ''/srv/proj/notes.txt'' ''reviewed'' emptyBridge"

definition notesUri :: string where
  "notesUri = ''vscode-remote://ssh-remote+box/srv/proj/notes.txt''"

text \<open>The same configuration with no folder open.\<close>

definition noFolderConfig :: config where
  "noFolderConfig = exampleConfig\<lparr>workspaceFolders := None\<rparr>"

text \<open>
  A world in which every command has already finished with status 0 after printing
  \<^verbatim>\<open>done\<close>: every exit sentinel reads \<^verbatim>\<open>0\<close>, every output sentinel \<^verbatim>\<open>done\<close>, and
  there is no error sentinel.
\<close>

definition endsWith :: "string \<Rightarrow> string \<Rightarrow> bool" where
  "endsWith s suffix = startsWith (rev s) (rev suffix)"

definition doneTransport :: "world transport" where
  "doneTransport =
     exampleTransport\<lparr>readFile :=
       (\<lambda>w uri. if endsWith uri ''.exit'' then (Inr (''0'' @ [NL]), w)
                 else if endsWith uri ''.out'' then (Inr (''done'' @ [NL]), w)
                 else (Inl (Error ''ENOENT: no such file or directory''), w))\<rparr>"

text \<open>
  A world in which the command takes 200 ms: it is submitted at the time 1500 (see
  \<open>submittedWorld\<close> below), and its sentinels are there from the time 1700 on, with
  the same texts as above.
\<close>

definition lateTransport :: "world transport" where
  "lateTransport =
     exampleTransport\<lparr>readFile :=
       (\<lambda>w uri. if clock w < 1700 then (Inl (Error ''ENOENT: no such file or directory''), w)
                 else if endsWith uri ''.exit'' then (Inr (''0'' @ [NL]), w)
                 else if endsWith uri ''.out'' then (Inr (''done'' @ [NL]), w)
                 else (Inl (Error ''ENOENT: no such file or directory''), w))\<rparr>"

text \<open>
  The configuration that runs commands over \<^verbatim>\<open>ssh\<close>, and a world in which the
  \<^verbatim>\<open>ssh\<close> process prints \<^verbatim>\<open>done\<close> in two chunks and closes with status 0 after one
  second: with a shorter timeout the timer fires after the first chunk and the process,
  killed, closes without a status.
\<close>

definition sshConfig :: config where
  "sshConfig = exampleConfig\<lparr>useSSHExec := True\<rparr>"

definition oneSecondSsh :: "world transport" where
  "oneSecondSsh =
     exampleTransport\<lparr>spawnSsh :=
       (\<lambda>w args timeoutMs.
          (if timeoutMs < 1000 then [StdoutData ''do'', TimerFired, Close None]
           else [StdoutData ''do'', StderrData [], StdoutData (''ne'' @ [NL]), Close (Some 0)], w))\<rparr>"

text \<open>
  The bridge and the world right after the first command was submitted from
  \<^const>\<open>emptyBridge\<close> and \<^const>\<open>emptyWorld\<close> in the directory \<^verbatim>\<open>/srv/proj\<close>.
\<close>

definition submittedWorld :: "string \<Rightarrow> world" where
  "submittedWorld command =
     emptyWorld\<lparr>clock := 1500,
       sent := [''(cd '' @ shellEscape ''/srv/proj'' @ '' && '' @ command
                 @ '') > /tmp/.claude_exec_1000_1.out 2> /tmp/.claude_exec_1000_1.err; echo $? > /tmp/.claude_exec_1000_1.exit'']\<rparr>"

definition submittedBridge :: bridge where
  "submittedBridge = emptyBridge\<lparr>execCounter := 1, remoteTerminal := True, terminalReady := True\<rparr>"

text \<open>
  A host without \<^verbatim>\<open>rg\<close>: the first command submitted finds no such tool (status 127
  and a message on the error output), the second one prints one match and ends with
  status 0. The sentinels are told apart by the command counter in their names.
\<close>

definition rgMissingTransport :: "world transport" where
  "rgMissingTransport =
     exampleTransport\<lparr>readFile :=
       (\<lambda>w uri. if endsWith uri ''_1.exit'' then (Inr ''127'', w)
                 else if endsWith uri ''_1.err'' then (Inr ''bash: rg: command not found'', w)
                 else if endsWith uri ''_2.exit'' then (Inr ''0'', w)
                 else if endsWith uri ''_2.out'' then (Inr ''./a.txt:1:x'', w)
                 else (Inl (Error ''ENOENT: no such file or directory''), w))\<rparr>"

text \<open>
  Two more worlds: one whose review gate rejects every proposal, and one whose remote
  files cannot be written.
\<close>

definition rejectingTransport :: "world transport" where
  "rejectingTransport =
     exampleTransport\<lparr>reviewEdit :=
       Some (\<lambda>w tool args oldText newText. (Inr \<lparr>accepted = False, finalContent = newText\<rparr>, w))\<rparr>"


text \<open>The world in which \<^verbatim>\<open>/srv/proj/notes.txt\<close> holds the given text.\<close>

definition notesWorld :: "string \<Rightarrow> world" where
  "notesWorld txt = emptyWorld\<lparr>files := [notesUri \<mapsto> txt]\<rparr>"


section \<open>Quoting for the shell\<close>

lemma scan_quoted:
  "posix_scan InQuote cur (replaceAllChar SQ [SQ, BSL, SQ, SQ] s @ SQ # rest)
     = posix_scan InWord (cur @ s) rest"
  by (induction s arbitrary: cur) (simp_all add: replaceAllChar_def shBlank_def)

lemma scan_shellEscape:
  "m \<noteq> InQuote \<Longrightarrow> posix_scan m cur (shellEscape s @ rest) = posix_scan InWord (cur @ s) rest"
  by (cases m) (simp_all add: shellEscape_def scan_quoted shBlank_def)

lemma scan_literal:
  "\<forall>c \<in> set lit. shLiteral c \<Longrightarrow> m \<noteq> InQuote \<Longrightarrow> lit \<noteq> [] \<Longrightarrow>
     posix_scan m cur (lit @ rest) = posix_scan InWord (cur @ lit) rest"
proof (induction lit arbitrary: m cur)
  case Nil
  then show ?case by simp
next
  case (Cons c lit)
  have c: "shLiteral c" "\<not> shBlank c" "c \<noteq> SQ" "c \<noteq> BSL" "c \<noteq> CHR ''&''"
    using Cons.prems(1) by (auto simp: shLiteral_def shBlank_def Let_def)
  have step: "posix_scan m cur ((c # lit) @ rest) = posix_scan InWord (cur @ [c]) (lit @ rest)"
    using c Cons.prems(2) by (cases m) simp_all
  show ?case
  proof (cases "lit = []")
    case True
    then show ?thesis using step by simp
  next
    case False
    then show ?thesis
      using step Cons.IH[of InWord "cur @ [c]"] Cons.prems(1) by simp
  qed
qed

lemma scan_blank:
  "m \<noteq> InQuote \<Longrightarrow>
     posix_scan m cur (CHR '' '' # rest) = map_option (delimit m cur) (posix_scan Between [] rest)"
  by (cases m) (simp_all add: shBlank_def)

lemma scan_andif:
  "m \<noteq> InQuote \<Longrightarrow>
     posix_scan m cur (CHR ''&'' # CHR ''&'' # rest)
       = map_option (\<lambda>toks. delimit m cur (AndIf # toks)) (posix_scan Between [] rest)"
  by (cases m) (simp_all add: shBlank_def)

lemma digitsOfNat_literal: "\<forall>c \<in> set (digitsOfNat n). shLiteral c"
proof (induction n rule: digitsOfNat.induct)
  case (1 n)
  have d: "shLiteral (char_of (48 + k))" if "k < 10" for k :: nat
    using that by (simp add: shLiteral_def Let_def)
  show ?case
  proof (cases "n < 10")
    case True
    then show ?thesis using d[of n] by (subst digitsOfNat.simps) simp
  next
    case False
    have "n mod 10 < 10" by simp
    then show ?thesis
      using False 1 d[of "n mod 10"] by (subst digitsOfNat.simps) simp
  qed
qed

lemma digitsOfNat_nonempty: "digitsOfNat n \<noteq> []"
  by (subst digitsOfNat.simps) simp

lemma numberToString_literal: "\<forall>c \<in> set (numberToString i). shLiteral c"
  using digitsOfNat_literal by (simp add: numberToString_def shLiteral_def)

lemma numberToString_nonempty: "numberToString i \<noteq> []"
  by (simp add: numberToString_def digitsOfNat_nonempty)

lemma scan_shellEscape_end:
  "m \<noteq> InQuote \<Longrightarrow> posix_scan m cur (shellEscape s) = Some [Word (cur @ s)]"
  using scan_shellEscape[of m cur s "[]"] by (simp add: delimit_def)

lemma scan_number:
  "m \<noteq> InQuote \<Longrightarrow>
     posix_scan m cur (numberToString i @ rest) = posix_scan InWord (cur @ numberToString i) rest"
  by (rule scan_literal) (simp_all add: numberToString_literal numberToString_nonempty)

lemmas scan_simps =
  scan_shellEscape scan_shellEscape_end scan_number shBlank_def shLiteral_def delimit_def

text \<open>
  Claim C10. \<^const>\<open>shellEscape\<close> wraps its argument in single quotes and replaces each
  single quote in it by quote, backslash, quote, quote; the shell reads the result back
  as one word, the argument itself. The command lines of \<^verbatim>\<open>bash\<close>, \<^verbatim>\<open>grep\<close> (both
  the primary and the fallback one) and the executor's \<^verbatim>\<open>cd\<close> prefix pass the
  command, the pattern, the include glob and the directory through it, so the shell
  reads each of them back as one word, whatever characters they hold.
\<close>

theorem shellEscape_one_literal_word:
  "shellEscape s = SQ # concat (map (\<lambda>c. if c = SQ then [SQ, BSL, SQ, SQ] else [c]) s) @ [SQ]
   \<and> posix_tokens (shellEscape s) = Some [Word s]
   \<and> posix_tokens (cdPart cwd @ bashCommand command)
       = Some ((if cwd = [] then [] else [Word ''cd'', Word cwd, AndIf])
               @ [Word ''bash'', Word ''-c'', Word command])
   \<and> posix_tokens (cdPart cwd @ rgCommand pattern include context max_results)
       = Some ((if cwd = [] then [] else [Word ''cd'', Word cwd, AndIf])
               @ [Word ''rg'', Word ''--color=never'', Word ''--line-number'']
               @ (if orEmpty include = [] then [] else [Word ''--glob'', Word (orEmpty include)])
               @ (if orZero context = 0 then []
                  else [Word ''-C'', Word (numberToString (orZero context))])
               @ (if orZero max_results = 0 then []
                  else [Word ''--max-count'', Word (numberToString (orZero max_results))])
               @ [Word pattern])
   \<and> posix_tokens (cdPart cwd @ grepCommand pattern include context max_results)
       = Some ((if cwd = [] then [] else [Word ''cd'', Word cwd, AndIf])
               @ [Word ''grep'', Word ''-rn'']
               @ (if orEmpty include = [] then [] else [Word (''--include='' @ orEmpty include)])
               @ (if orZero context = 0 then []
                  else [Word ''-C'', Word (numberToString (orZero context))])
               @ (if orZero max_results = 0 then []
                  else [Word ''-m'', Word (numberToString (orZero max_results))])
               @ [Word pattern, Word ''.''])"
proof (intro conjI)
  show "shellEscape s = SQ # concat (map (\<lambda>c. if c = SQ then [SQ, BSL, SQ, SQ] else [c]) s) @ [SQ]"
    by (simp add: shellEscape_def replaceAllChar_def)
  show "posix_tokens (shellEscape s) = Some [Word s]"
    by (simp add: posix_tokens_def scan_shellEscape_end)
  show "posix_tokens (cdPart cwd @ bashCommand command)
          = Some ((if cwd = [] then [] else [Word ''cd'', Word cwd, AndIf])
                  @ [Word ''bash'', Word ''-c'', Word command])"
    by (simp add: posix_tokens_def cdPart_def bashCommand_def scan_simps)
  show "posix_tokens (cdPart cwd @ rgCommand pattern include context max_results)
          = Some ((if cwd = [] then [] else [Word ''cd'', Word cwd, AndIf])
                  @ [Word ''rg'', Word ''--color=never'', Word ''--line-number'']
                  @ (if orEmpty include = [] then [] else [Word ''--glob'', Word (orEmpty include)])
                  @ (if orZero context = 0 then []
                     else [Word ''-C'', Word (numberToString (orZero context))])
                  @ (if orZero max_results = 0 then []
                     else [Word ''--max-count'', Word (numberToString (orZero max_results))])
                  @ [Word pattern])"
    by (simp add: posix_tokens_def cdPart_def rgCommand_def scan_simps)
  show "posix_tokens (cdPart cwd @ grepCommand pattern include context max_results)
          = Some ((if cwd = [] then [] else [Word ''cd'', Word cwd, AndIf])
                  @ [Word ''grep'', Word ''-rn'']
                  @ (if orEmpty include = [] then [] else [Word (''--include='' @ orEmpty include)])
                  @ (if orZero context = 0 then []
                     else [Word ''-C'', Word (numberToString (orZero context))])
                  @ (if orZero max_results = 0 then []
                     else [Word ''-m'', Word (numberToString (orZero max_results))])
                  @ [Word pattern, Word ''.''])"
    by (simp add: posix_tokens_def cdPart_def grepCommand_def scan_simps)
qed

text \<open>
  At the command \<^verbatim>\<open>echo 'a b'; ls\<close> in the directory \<^verbatim>\<open>/my dir\<close>: the shell reads
  \<^verbatim>\<open>cd\<close>, the directory, \<^verbatim>\<open>&&\<close>, \<^verbatim>\<open>bash\<close>, \<^verbatim>\<open>-c\<close> and the command.
\<close>

theorem shellEscape_one_literal_word_witness:
  "shellEscape (''echo '' @ [SQ] @ ''a b'' @ [SQ] @ ''; ls'')
     = [SQ] @ ''echo '' @ [SQ, BSL, SQ, SQ] @ ''a b'' @ [SQ, BSL, SQ, SQ] @ ''; ls'' @ [SQ]
   \<and> posix_tokens (cdPart ''/my dir'' @ bashCommand (''echo '' @ [SQ] @ ''a b'' @ [SQ] @ ''; ls''))
       = Some [Word ''cd'', Word ''/my dir'', AndIf, Word ''bash'', Word ''-c'',
               Word (''echo '' @ [SQ] @ ''a b'' @ [SQ] @ ''; ls'')]"
  using shellEscape_one_literal_word
          [of "''echo '' @ [SQ] @ ''a b'' @ [SQ] @ ''; ls''" "''/my dir''"
              "''echo '' @ [SQ] @ ''a b'' @ [SQ] @ ''; ls''"]
  by simp

section \<open>Path resolution\<close>

lemma startsWith_append: "startsWith (p @ s) p"
  by (induction p) simp_all

lemma startsWith_take: "startsWith s p \<longleftrightarrow> take (length p) s = p"
  by (induction s p rule: startsWith.induct) auto

lemma startsWith_trans: "startsWith s p \<Longrightarrow> startsWith p q \<Longrightarrow> startsWith s q"
  by (induction s p arbitrary: q rule: startsWith.induct) (auto elim: startsWith.elims)

lemma joinWith_Cons: "joinWith sep (p # ps) = p @ (if ps = [] then [] else sep @ joinWith sep ps)"
  by (cases ps) simp_all

lemma posix_normalize_absolute:
  "posix_isAbsolute p \<Longrightarrow> posix_isAbsolute (posix_normalize p)"
  by (auto simp: posix_normalize_def posix_isAbsolute_def Let_def)

lemma posix_join_absolute:
  assumes a: "posix_isAbsolute p"
  shows "posix_isAbsolute (posix_join (p # ps))"
proof -
  have ne: "p \<noteq> []" using a by (auto simp: posix_isAbsolute_def)
  let ?j = "joinWith ''/'' (p # filter (\<lambda>q. q \<noteq> []) ps)"
  have j: "posix_isAbsolute ?j"
    using a ne by (cases p) (auto simp: joinWith_Cons posix_isAbsolute_def)
  then have "?j \<noteq> []" by (auto simp: posix_isAbsolute_def)
  then have "posix_join (p # ps) = posix_normalize ?j"
    using ne by (simp add: posix_join_def)
  then show ?thesis using posix_normalize_absolute[OF j] by simp
qed

lemma getLocalCwd_absolute:
  "posix_isAbsolute (homedir cfg) \<Longrightarrow> posix_isAbsolute (getLocalCwd cfg)"
  by (simp add: getLocalCwd_def Let_def posix_join_absolute)

lemma relative_not_under_absolute:
  "posix_isAbsolute l \<Longrightarrow> \<not> posix_isAbsolute r \<Longrightarrow> \<not> startsWith r l"
  unfolding posix_isAbsolute_def using startsWith_trans by blast

lemma toRemotePath_relative:
  assumes "posix_isAbsolute (homedir cfg)" and "getRemoteCwd cfg = Inr remoteCwd"
    and "\<not> posix_isAbsolute r"
  shows "toRemotePath cfg r = Inr (posix_join [remoteCwd, r])"
  using assms relative_not_under_absolute[OF getLocalCwd_absolute[OF assms(1)] assms(3)]
  by (simp add: toRemotePath_def Let_def)

lemma toRemotePath_under_local_root:
  assumes "getRemoteCwd cfg = Inr remoteCwd"
  shows "toRemotePath cfg (getLocalCwd cfg @ ''/'' @ r)
           = Inr (if r \<noteq> [] then posix_join [remoteCwd, r] else remoteCwd)"
  using assms startsWith_append[of "getLocalCwd cfg" "''/'' @ r"]
  by (simp add: toRemotePath_def Let_def)

lemma toRemotePath_local_root:
  assumes "getRemoteCwd cfg = Inr remoteCwd"
  shows "toRemotePath cfg (getLocalCwd cfg) = Inr remoteCwd"
  using assms startsWith_append[of "getLocalCwd cfg" "[]"]
  by (simp add: toRemotePath_def Let_def)

lemma posix_join_empty_rel:
  "posix_normalize remoteCwd = remoteCwd \<Longrightarrow> posix_join [remoteCwd, []] = remoteCwd"
  by (auto simp: posix_join_def Let_def posix_normalize_def)

lemma getLocalCwd_exampleConfig: "getLocalCwd exampleConfig = ''/home/u/.claude/remote/box/srv-proj''"
  by (simp add: exampleConfig_def getLocalCwd_def getSshHost_def replaceAllChar_def
      posix_join_def posix_normalize_def posix_isAbsolute_def Let_def)

lemma getRemoteCwd_exampleConfig: "getRemoteCwd exampleConfig = Inr ''/srv/proj''"
  by (simp add: exampleConfig_def getRemoteCwd_def)

text \<open>
  Claim C9. With an absolute home directory (so that the local working root is
  absolute) and a workspace root configured, a relative path \<open>r\<close> resolves to the same
  remote path whether it is given alone or under the local working root: both are \<open>r\<close>
  joined onto the remote workspace root. The local working root itself resolves to the
  remote workspace root. For the empty \<open>r\<close> the two sides are the remote root as
  configured and its normal form, so that case asks for a root in normal form.
\<close>

theorem toRemotePath_local_equals_relative:
  assumes "posix_isAbsolute (homedir cfg)"
    and "getRemoteCwd cfg = Inr remoteCwd"
    and "\<not> posix_isAbsolute r"
    and "r \<noteq> [] \<or> posix_normalize remoteCwd = remoteCwd"
  shows "toRemotePath cfg (getLocalCwd cfg @ ''/'' @ r) = toRemotePath cfg r
         \<and> toRemotePath cfg r = Inr (posix_join [remoteCwd, r])
         \<and> toRemotePath cfg (getLocalCwd cfg) = Inr remoteCwd"
  using assms toRemotePath_relative[OF assms(1-3)] toRemotePath_under_local_root[OF assms(2), of r]
    toRemotePath_local_root[OF assms(2)] posix_join_empty_rel[of remoteCwd]
  by auto

theorem toRemotePath_local_equals_relative_witness:
  "posix_isAbsolute (homedir exampleConfig)
   \<and> getRemoteCwd exampleConfig = Inr ''/srv/proj''
   \<and> \<not> posix_isAbsolute ''src/a.js''
   \<and> toRemotePath exampleConfig (''/home/u/.claude/remote/box/srv-proj'' @ ''/'' @ ''src/a.js'')
       = Inr ''/srv/proj/src/a.js''
   \<and> toRemotePath exampleConfig ''src/a.js'' = Inr ''/srv/proj/src/a.js''
   \<and> toRemotePath exampleConfig ''/home/u/.claude/remote/box/srv-proj'' = Inr ''/srv/proj''"
proof -
  have h1: "posix_isAbsolute (homedir exampleConfig)"
    by (simp add: exampleConfig_def posix_isAbsolute_def)
  have h3: "\<not> posix_isAbsolute ''src/a.js''"
    by (simp add: posix_isAbsolute_def)
  have h4: "''src/a.js'' \<noteq> [] \<or> posix_normalize ''/srv/proj'' = ''/srv/proj''"
    by simp
  have j: "posix_join [''/srv/proj'', ''src/a.js''] = ''/srv/proj/src/a.js''"
    by (simp add: posix_join_def posix_normalize_def posix_isAbsolute_def Let_def)
  show ?thesis
    using toRemotePath_local_equals_relative[OF h1 getRemoteCwd_exampleConfig h3 h4]
      h1 h3 j getRemoteCwd_exampleConfig getLocalCwd_exampleConfig
    by simp
qed

section \<open>Reading after writing\<close>

lemma getRemoteUri_ok:
  "toRemotePath cfg p = Inr rp \<Longrightarrow>
     getRemoteUri cfg p = Inr (''vscode-remote://ssh-remote+'' @ getSshHost cfg @ rp)"
  by (simp add: getRemoteUri_def Let_def)

lemma getRemoteUri_err: "toRemotePath cfg p = Inl e \<Longrightarrow> getRemoteUri cfg p = Inl e"
  by (simp add: getRemoteUri_def Let_def)

lemma getCachedWrite_fresh:
  assumes "writeCache st rp = Some entry" and "t - ce_timestamp entry \<le> WRITE_CACHE_TTL"
  shows "getCachedWrite t rp st = (Some (ce_content entry), st)"
  using assms by (simp add: getCachedWrite_def)

lemma read_file_cached:
  assumes "toRemotePath cfg p = Inr rp"
    and "writeCache st rp = Some entry"
    and "now tr w - ce_timestamp entry \<le> WRITE_CACHE_TTL"
  shows "read_file tr cfg st w p offset limit
           = (success (truncateOutput (sliceLines (ce_content entry) offset limit) MAX_CHARS), st, w)"
  using assms
  by (simp add: read_file_def read_file_body_def getCachedWrite_fresh catchAs_def)

lemma commit_result:
  "commit tr st w uri rp old new msg = (r, st', w') \<Longrightarrow>
     (\<exists>e. r = Inl e \<and> st' = st \<and> fst (writeFile tr w uri new) = Inl e \<and> w' = snd (writeFile tr w uri new))
     \<or> (r = Inr (success msg)
         \<and> fst (writeFile tr w uri new) = Inr ()
         \<and> st' = cacheWrite (now tr (snd (writeFile tr w uri new))) rp new st
         \<and> w' = notify tr (snd (writeFile tr w uri new)) rp old new)"
  by (auto simp: commit_def split: prod.splits sum.splits)

lemma catchAs_isError: "\<not> isError (catchAs prefix r) \<Longrightarrow> \<exists>res. r = Inr res \<and> \<not> isError res"
  by (cases r) (simp_all add: catchAs_def)

lemma write_file_plain:
  assumes gate: "reviewEdit tr = None"
    and ov: "fst (consumeEditOverride (now tr w) rp st) = None"
    and rp: "toRemotePath cfg p = Inr rp"
    and wr: "write_file tr cfg st w p content = (res, st', w')"
    and ok: "\<not> isError res"
  shows "\<exists>t. writeCache st' rp = Some \<lparr>ce_content = content, ce_timestamp = t\<rparr>"
proof -
  obtain st1 where c: "consumeEditOverride (now tr w) rp st = (None, st1)"
    using ov by (cases "consumeEditOverride (now tr w) rp st") simp
  obtain old st2 w1 where pc: "priorContent tr st1 w rp (''vscode-remote://ssh-remote+'' @ getSshHost cfg @ rp) = (old, st2, w1)"
    by (metis prod_cases3)
  let ?uri = "''vscode-remote://ssh-remote+'' @ getSshHost cfg @ rp"
  let ?msg = "''Successfully wrote '' @ numberToString (int (utf8Length content)) @ '' bytes to '' @ p"
  have body: "write_file_body tr cfg st w p content = commit tr st2 w1 ?uri rp old content ?msg"
    using gate rp c pc by (simp add: write_file_body_def getRemoteUri_ok)
  obtain r where r: "commit tr st2 w1 ?uri rp old content ?msg = (r, st', w')" and res: "res = catchAs ''Error writing file: '' r"
    using wr body by (auto simp: write_file_def split: prod.splits)
  from commit_result[OF r] ok res show ?thesis
    by (auto simp: catchAs_def cacheWrite_def)
qed

lemma sliceLines_none: "sliceLines txt None None = txt"
  by (simp add: sliceLines_def)

lemma toRemotePath_example_relative:
  "toRemotePath exampleConfig ''notes.txt'' = Inr ''/srv/proj/notes.txt''"
  by (simp add: toRemotePath_def getLocalCwd_exampleConfig getRemoteCwd_exampleConfig
      posix_isAbsolute_def posix_join_def posix_normalize_def Let_def)

lemma getSshHost_exampleConfig: "getSshHost exampleConfig = ''box''"
  by (simp add: getSshHost_def exampleConfig_def)

lemma write_file_example:
  "write_file exampleTransport exampleConfig emptyBridge emptyWorld ''notes.txt'' content
     = (success (''Successfully wrote '' @ numberToString (int (utf8Length content)) @ '' bytes to notes.txt''),
        emptyBridge\<lparr>writeCache := [''/srv/proj/notes.txt'' \<mapsto> \<lparr>ce_content = content, ce_timestamp = 1000\<rparr>]\<rparr>,
        emptyWorld\<lparr>files := [''vscode-remote://ssh-remote+box/srv/proj/notes.txt'' \<mapsto> content]\<rparr>)"
  by (simp add: write_file_def write_file_body_def getRemoteUri_def toRemotePath_example_relative
      consumeEditOverride_def priorContent_def getCachedWrite_def readOrDefault_def commit_def
      cacheWrite_def notify_def catchAs_def exampleTransport_def emptyBridge_def emptyWorld_def
      getSshHost_exampleConfig Let_def)

lemma truncateOutput_long:
  "truncateOutput (replicate 30001 c) MAX_CHARS \<noteq> replicate 30001 c"
proof
  assume "truncateOutput (replicate 30001 c) MAX_CHARS = replicate 30001 c"
  then have "length (truncateOutput (replicate 30001 c) MAX_CHARS) = length (replicate 30001 c)"
    by simp
  then show False
    by (simp add: truncateOutput_def MAX_CHARS_def Let_def)
qed

text \<open>
  Claim C1, as amended. With no review gate and no override consumed, after a
  \<^verbatim>\<open>write_file\<close> of \<open>content\<close> that did not fail, a \<^verbatim>\<open>read_file\<close> of the same
  path without offset or limit, started in any world whose clock is within the cache's
  time to live of the write, returns the written content cut to the output budget,
  whatever the remote file primitive would return: the head, the marker and the tail
  for a content above 30000 characters, and exactly the content otherwise.
\<close>

theorem write_file_then_read_file:
  assumes "reviewEdit tr = None"
    and "fst (consumeEditOverride (now tr w) rp st) = None"
    and "toRemotePath cfg p = Inr rp"
    and "write_file tr cfg st w p content = (res, st', w')"
    and "\<not> isError res"
    and "cachedAt st' rp = Some t"
    and "now tr w'' - t \<le> WRITE_CACHE_TTL"
  shows "read_file tr cfg st' w'' p None None = (success (truncateOutput content MAX_CHARS), st', w'')
         \<and> (length content \<le> MAX_CHARS
              \<longrightarrow> read_file tr cfg st' w'' p None None = (success content, st', w''))"
proof -
  obtain t' where e: "writeCache st' rp = Some \<lparr>ce_content = content, ce_timestamp = t'\<rparr>"
    using write_file_plain[OF assms(1-5)] by blast
  then have "t' = t" using assms(6) by (simp add: cachedAt_def)
  then have "now tr w'' - ce_timestamp \<lparr>ce_content = content, ce_timestamp = t'\<rparr> \<le> WRITE_CACHE_TTL"
    using assms(7) by simp
  from read_file_cached[OF assms(3) e this, of None None]
  show ?thesis by (simp add: sliceLines_none truncateOutput_def)
qed

theorem write_file_then_read_file_witness:
  "read_file exampleTransport exampleConfig
     (emptyBridge\<lparr>writeCache := [''/srv/proj/notes.txt'' \<mapsto> \<lparr>ce_content = ''hello'', ce_timestamp = 1000\<rparr>]\<rparr>)
     (emptyWorld\<lparr>files := [''vscode-remote://ssh-remote+box/srv/proj/notes.txt'' \<mapsto> ''hello'']\<rparr>)
     ''notes.txt'' None None
   = (success ''hello'',
      emptyBridge\<lparr>writeCache := [''/srv/proj/notes.txt'' \<mapsto> \<lparr>ce_content = ''hello'', ce_timestamp = 1000\<rparr>]\<rparr>,
      emptyWorld\<lparr>files := [''vscode-remote://ssh-remote+box/srv/proj/notes.txt'' \<mapsto> ''hello'']\<rparr>)"
proof -
  let ?st = "emptyBridge\<lparr>writeCache := [''/srv/proj/notes.txt'' \<mapsto> \<lparr>ce_content = ''hello'', ce_timestamp = 1000\<rparr>]\<rparr>"
  let ?w = "emptyWorld\<lparr>files := [''vscode-remote://ssh-remote+box/srv/proj/notes.txt'' \<mapsto> ''hello'']\<rparr>"
  have h1: "reviewEdit exampleTransport = None"
    by (simp add: exampleTransport_def)
  have h2: "fst (consumeEditOverride (now exampleTransport emptyWorld) ''/srv/proj/notes.txt'' emptyBridge) = None"
    by (simp add: consumeEditOverride_def emptyBridge_def)
  have h5: "\<not> isError (success (''Successfully wrote '' @ numberToString (int (utf8Length ''hello''))
                                   @ '' bytes to notes.txt''))"
    by (simp add: success_def)
  have h6: "cachedAt ?st ''/srv/proj/notes.txt'' = Some 1000"
    by (simp add: cachedAt_def)
  have h7: "now exampleTransport ?w - 1000 \<le> WRITE_CACHE_TTL"
    by (simp add: exampleTransport_def emptyWorld_def WRITE_CACHE_TTL_def)
  have "length ''hello'' \<le> MAX_CHARS"
    by (simp add: MAX_CHARS_def)
  then show ?thesis
    using write_file_then_read_file[OF h1 h2 toRemotePath_example_relative write_file_example h5 h6 h7]
    by blast
qed

text \<open>
  The claim as stated fails for a content above the budget: after writing 30001
  characters, the read returns a text that is not the content.
\<close>

theorem write_then_read_truncated:
  "\<not> isError (fst (write_file exampleTransport exampleConfig emptyBridge emptyWorld ''notes.txt''
                     (replicate 30001 CHR ''a'')))
   \<and> outputText (fst (read_file exampleTransport exampleConfig
         (fst (snd (write_file exampleTransport exampleConfig emptyBridge emptyWorld ''notes.txt''
                      (replicate 30001 CHR ''a''))))
         (snd (snd (write_file exampleTransport exampleConfig emptyBridge emptyWorld ''notes.txt''
                      (replicate 30001 CHR ''a''))))
         ''notes.txt'' None None))
       \<noteq> replicate 30001 CHR ''a''"
proof -
  let ?C = "replicate 30001 CHR ''a''"
  have rd: "read_file exampleTransport exampleConfig
              (emptyBridge\<lparr>writeCache := [''/srv/proj/notes.txt'' \<mapsto> \<lparr>ce_content = ?C, ce_timestamp = 1000\<rparr>]\<rparr>)
              (emptyWorld\<lparr>files := [''vscode-remote://ssh-remote+box/srv/proj/notes.txt'' \<mapsto> ?C]\<rparr>)
              ''notes.txt'' None None
            = (success (truncateOutput ?C MAX_CHARS),
               emptyBridge\<lparr>writeCache := [''/srv/proj/notes.txt'' \<mapsto> \<lparr>ce_content = ?C, ce_timestamp = 1000\<rparr>]\<rparr>,
               emptyWorld\<lparr>files := [''vscode-remote://ssh-remote+box/srv/proj/notes.txt'' \<mapsto> ?C]\<rparr>)"
    by (simp add: read_file_def read_file_body_def toRemotePath_example_relative getCachedWrite_def
        sliceLines_none catchAs_def exampleTransport_def emptyBridge_def emptyWorld_def
        WRITE_CACHE_TTL_def)
  show ?thesis
    unfolding write_file_example using rd truncateOutput_long[of "CHR ''a''"]
    by (simp add: success_def)
qed

section \<open>The edit override\<close>

lemma consumeEditOverride_hit:
  assumes "editOverride st = Some ov" and "eo_remotePath ov = rp"
    and "t - eo_timestamp ov < EDIT_OVERRIDE_TTL"
  shows "consumeEditOverride t rp st = (Some (eo_content ov), st\<lparr>editOverride := None\<rparr>)"
  using assms by (simp add: consumeEditOverride_def)

lemma consumeEditOverride_none:
  "editOverride st = None \<Longrightarrow> consumeEditOverride t rp st = (None, st)"
  by (simp add: consumeEditOverride_def)

lemma getCachedWrite_editOverride:
  "editOverride (snd (getCachedWrite t rp st)) = editOverride st"
  by (simp add: getCachedWrite_def split: option.splits)

lemma priorContent_editOverride:
  "priorContent tr st w rp uri = (old, st', w') \<Longrightarrow> editOverride st' = editOverride st"
  using getCachedWrite_editOverride[of "now tr w" rp st]
  by (auto simp: priorContent_def Let_def split: prod.splits if_splits)

lemma write_file_override:
  assumes rp: "toRemotePath cfg p = Inr rp"
    and ov: "editOverride st = Some ov" "eo_remotePath ov = rp"
    and ttl: "now tr w - eo_timestamp ov < EDIT_OVERRIDE_TTL"
    and pc: "priorContent tr (st\<lparr>editOverride := None\<rparr>) w rp
               (''vscode-remote://ssh-remote+'' @ getSshHost cfg @ rp) = (old, st0, w0)"
  shows "write_file_body tr cfg st w p x
           = commit tr st0 w0 (''vscode-remote://ssh-remote+'' @ getSshHost cfg @ rp) rp old
               (eo_content ov)
               (''Successfully wrote '' @ numberToString (int (utf8Length (eo_content ov)))
                  @ '' bytes to '' @ p)"
  using rp pc consumeEditOverride_hit[OF ov ttl]
  by (simp add: write_file_body_def getRemoteUri_ok)

lemma write_file_no_override:
  assumes rp: "toRemotePath cfg p = Inr rp"
    and ov: "editOverride st = None"
    and gate: "reviewEdit tr = None"
    and pc: "priorContent tr st w rp (''vscode-remote://ssh-remote+'' @ getSshHost cfg @ rp) = (old, st0, w0)"
  shows "write_file_body tr cfg st w p x
           = commit tr st0 w0 (''vscode-remote://ssh-remote+'' @ getSshHost cfg @ rp) rp old x
               (''Successfully wrote '' @ numberToString (int (utf8Length x)) @ '' bytes to '' @ p)"
  using rp pc gate consumeEditOverride_none[OF ov]
  by (simp add: write_file_body_def getRemoteUri_ok)

lemma commit_ok:
  assumes "commit tr st w uri rp old new msg = (r, st', w')"
    and "\<not> isError (catchAs prefix r)"
  shows "catchAs prefix r = success msg
         \<and> fst (writeFile tr w uri new) = Inr ()
         \<and> st' = cacheWrite (now tr (snd (writeFile tr w uri new))) rp new st
         \<and> w' = notify tr (snd (writeFile tr w uri new)) rp old new"
  using commit_result[OF assms(1)] assms(2) by (auto simp: catchAs_def)

lemma priorContent_gate:
  "priorContent (tr\<lparr>reviewEdit := gate\<rparr>) st w rp uri = priorContent tr st w rp uri"
  by (simp add: priorContent_def readOrDefault_def Let_def split: prod.splits sum.splits)

lemma commit_gate:
  "commit (tr\<lparr>reviewEdit := gate\<rparr>) st w uri rp old new msg = commit tr st w uri rp old new msg"
  by (simp add: commit_def notify_def split: prod.splits sum.splits)

lemma write_file_example_override:
  "write_file exampleTransport exampleConfig overrideBridge emptyWorld ''notes.txt'' x
     = (success (''Successfully wrote '' @ numberToString (int (utf8Length ''reviewed''))
                   @ '' bytes to notes.txt''),
        emptyBridge\<lparr>writeCache := [''/srv/proj/notes.txt''
                                      \<mapsto> \<lparr>ce_content = ''reviewed'', ce_timestamp = 1000\<rparr>]\<rparr>,
        emptyWorld\<lparr>files := [notesUri \<mapsto> ''reviewed'']\<rparr>)"
  by (simp add: write_file_def write_file_body_def getRemoteUri_def toRemotePath_example_relative
      consumeEditOverride_def priorContent_def getCachedWrite_def readOrDefault_def commit_def
      cacheWrite_def notify_def catchAs_def exampleTransport_def emptyBridge_def emptyWorld_def
      getSshHost_exampleConfig overrideBridge_def setEditOverride_def EDIT_OVERRIDE_TTL_def
      notesUri_def Let_def)

lemma write_file_example_second:
  "write_file exampleTransport exampleConfig
     (emptyBridge\<lparr>writeCache := [''/srv/proj/notes.txt''
                                   \<mapsto> \<lparr>ce_content = ''reviewed'', ce_timestamp = 1000\<rparr>]\<rparr>)
     (emptyWorld\<lparr>files := [notesUri \<mapsto> ''reviewed'']\<rparr>) ''notes.txt'' ''second''
     = (success (''Successfully wrote '' @ numberToString (int (utf8Length ''second''))
                   @ '' bytes to notes.txt''),
        emptyBridge\<lparr>writeCache := [''/srv/proj/notes.txt''
                                      \<mapsto> \<lparr>ce_content = ''second'', ce_timestamp = 1000\<rparr>]\<rparr>,
        emptyWorld\<lparr>files := [notesUri \<mapsto> ''second'']\<rparr>)"
  by (simp add: write_file_def write_file_body_def getRemoteUri_def toRemotePath_example_relative
      consumeEditOverride_def priorContent_def getCachedWrite_def readOrDefault_def commit_def
      cacheWrite_def notify_def catchAs_def exampleTransport_def emptyBridge_def emptyWorld_def
      getSshHost_exampleConfig WRITE_CACHE_TTL_def notesUri_def Let_def)

text \<open>
  Claim C2. An override for the resolved path of \<open>p\<close> is pending and within its time
  to live. Then the next \<^verbatim>\<open>write_file\<close> for \<open>p\<close> does the same whatever content was
  requested and whatever review gate is configured (the gate is not consulted): it
  writes the override's content to the file, caches it, and clears the override. A
  second \<^verbatim>\<open>write_file\<close> for \<open>p\<close> (no new override, no review gate) writes and caches
  its own content. Both writes are taken as not failing.
\<close>

theorem override_precedence:
  assumes rp: "toRemotePath cfg p = Inr rp"
    and ov: "editOverride st = Some ov" "eo_remotePath ov = rp"
    and ttl: "now tr w - eo_timestamp ov < EDIT_OVERRIDE_TTL"
    and first: "write_file tr cfg st w p anything = (res1, st1, w1)" "\<not> isError res1"
    and second: "reviewEdit tr = None" "write_file tr cfg st1 w2 p content2 = (res2, st2, w3)"
      "\<not> isError res2"
  shows "(\<forall>gate x. write_file (tr\<lparr>reviewEdit := gate\<rparr>) cfg st w p x = (res1, st1, w1))
         \<and> (let uri = ''vscode-remote://ssh-remote+'' @ getSshHost cfg @ rp;
                 (old, st0, w0) = priorContent tr (st\<lparr>editOverride := None\<rparr>) w rp uri;
                 written = writeFile tr w0 uri (eo_content ov)
             in fst written = Inr ()
                \<and> st1 = cacheWrite (now tr (snd written)) rp (eo_content ov) st0
                \<and> w1 = notify tr (snd written) rp old (eo_content ov))
         \<and> editOverride st1 = None
         \<and> (let uri = ''vscode-remote://ssh-remote+'' @ getSshHost cfg @ rp;
                 (old, st0, w0) = priorContent tr st1 w2 rp uri;
                 written = writeFile tr w0 uri content2
             in fst written = Inr ()
                \<and> st2 = cacheWrite (now tr (snd written)) rp content2 st0
                \<and> w3 = notify tr (snd written) rp old content2)"
proof -
  let ?uri = "''vscode-remote://ssh-remote+'' @ getSshHost cfg @ rp"
  obtain old st0 w0 where pc: "priorContent tr (st\<lparr>editOverride := None\<rparr>) w rp ?uri = (old, st0, w0)"
    by (metis prod_cases3)
  let ?msg = "''Successfully wrote '' @ numberToString (int (utf8Length (eo_content ov))) @ '' bytes to '' @ p"
  have body: "write_file_body tr' cfg st w p x = commit tr st0 w0 ?uri rp old (eo_content ov) ?msg"
    if "tr' = tr\<lparr>reviewEdit := gate\<rparr>" for tr' gate x
  proof -
    have pc': "priorContent tr' (st\<lparr>editOverride := None\<rparr>) w rp ?uri = (old, st0, w0)"
      using pc that by (simp add: priorContent_gate)
    have "now tr' w - eo_timestamp ov < EDIT_OVERRIDE_TTL" using ttl that by simp
    from write_file_override[OF rp ov this pc', of x]
    show ?thesis using that by (simp add: commit_gate)
  qed
  have tr_self: "tr = tr\<lparr>reviewEdit := reviewEdit tr\<rparr>" by simp
  obtain r where r: "commit tr st0 w0 ?uri rp old (eo_content ov) ?msg = (r, st1, w1)"
    and res1: "res1 = catchAs ''Error writing file: '' r"
    using first(1) body[OF tr_self, of anything] by (auto simp: write_file_def split: prod.splits)
  have c1: "\<forall>gate x. write_file (tr\<lparr>reviewEdit := gate\<rparr>) cfg st w p x = (res1, st1, w1)"
    using body[OF refl] r res1 by (simp add: write_file_def)
  note ok1 = commit_ok[OF r first(2)[unfolded res1]]
  have e0: "editOverride st0 = None"
    using priorContent_editOverride[OF pc] by simp
  then have e1: "editOverride st1 = None"
    using ok1 by (simp add: cacheWrite_def)
  obtain old' st0' w0' where pc2: "priorContent tr st1 w2 rp ?uri = (old', st0', w0')"
    by (metis prod_cases3)
  let ?msg2 = "''Successfully wrote '' @ numberToString (int (utf8Length content2)) @ '' bytes to '' @ p"
  obtain r2 where r2: "commit tr st0' w0' ?uri rp old' content2 ?msg2 = (r2, st2, w3)"
    and res2: "res2 = catchAs ''Error writing file: '' r2"
    using second(2) write_file_no_override[OF rp e1 second(1) pc2, of content2]
    by (auto simp: write_file_def split: prod.splits)
  note ok2 = commit_ok[OF r2 second(3)[unfolded res2]]
  show ?thesis
    using c1 ok1 e1 ok2 pc pc2 by (simp add: Let_def)
qed

text \<open>
  With the reviewer's version \<^verbatim>\<open>reviewed\<close> pending for \<^verbatim>\<open>notes.txt\<close>: a write of
  \<^verbatim>\<open>other\<close> under a gate that rejects everything does what a write of \<^verbatim>\<open>proposed\<close>
  under no gate does, the file then holds \<^verbatim>\<open>reviewed\<close>, no override is left, and a
  second write of \<^verbatim>\<open>second\<close> leaves \<^verbatim>\<open>second\<close> in the file.
\<close>

theorem override_precedence_witness:
  "write_file (exampleTransport\<lparr>reviewEdit := reviewEdit rejectingTransport\<rparr>) exampleConfig
     overrideBridge emptyWorld ''notes.txt'' ''other''
     = write_file exampleTransport exampleConfig overrideBridge emptyWorld ''notes.txt'' ''proposed''
   \<and> files (snd (snd (write_file exampleTransport exampleConfig overrideBridge emptyWorld
                         ''notes.txt'' ''proposed''))) notesUri = Some ''reviewed''
   \<and> editOverride (fst (snd (write_file exampleTransport exampleConfig overrideBridge emptyWorld
                                 ''notes.txt'' ''proposed''))) = None
   \<and> files (snd (snd (write_file exampleTransport exampleConfig
                         (fst (snd (write_file exampleTransport exampleConfig overrideBridge
                                      emptyWorld ''notes.txt'' ''proposed'')))
                         (snd (snd (write_file exampleTransport exampleConfig overrideBridge
                                      emptyWorld ''notes.txt'' ''proposed'')))
                         ''notes.txt'' ''second''))) notesUri = Some ''second''"
proof -
  have ov: "editOverride overrideBridge
              = Some \<lparr>eo_remotePath = ''/srv/proj/notes.txt'', eo_content = ''reviewed'', eo_timestamp = 900\<rparr>"
    by (simp add: overrideBridge_def setEditOverride_def)
  have ttl: "now exampleTransport emptyWorld
               - eo_timestamp \<lparr>eo_remotePath = ''/srv/proj/notes.txt'', eo_content = ''reviewed'', eo_timestamp = 900\<rparr>
             < EDIT_OVERRIDE_TTL"
    by (simp add: exampleTransport_def emptyWorld_def EDIT_OVERRIDE_TTL_def)
  have gate: "reviewEdit exampleTransport = None"
    by (simp add: exampleTransport_def)
  note inst = override_precedence[OF toRemotePath_example_relative ov _ ttl
      write_file_example_override[of "''proposed''"] _ gate write_file_example_second]
  have "(\<forall>gate x. write_file (exampleTransport\<lparr>reviewEdit := gate\<rparr>) exampleConfig overrideBridge
                emptyWorld ''notes.txt'' x
              = write_file exampleTransport exampleConfig overrideBridge emptyWorld
                  ''notes.txt'' ''proposed'')
        \<and> editOverride (emptyBridge\<lparr>writeCache := [''/srv/proj/notes.txt''
                           \<mapsto> \<lparr>ce_content = ''reviewed'', ce_timestamp = 1000\<rparr>]\<rparr>) = None"
    using inst by (simp add: success_def write_file_example_override)
  then show ?thesis
    by (simp add: write_file_example_override write_file_example_second)
qed

section \<open>A missing workspace root\<close>

lemma getRemoteCwd_noWorkspace: "noWorkspace cfg \<Longrightarrow> getRemoteCwd cfg = Inl noWorkspaceError"
  by (auto simp: noWorkspace_def getRemoteCwd_def noWorkspaceError_def)

lemma toRemotePath_noWorkspace: "noWorkspace cfg \<Longrightarrow> toRemotePath cfg p = Inl noWorkspaceError"
  by (simp add: toRemotePath_def getRemoteCwd_noWorkspace Let_def)

lemma getRemoteUri_noWorkspace: "noWorkspace cfg \<Longrightarrow> getRemoteUri cfg p = Inl noWorkspaceError"
  by (simp add: getRemoteUri_def toRemotePath_noWorkspace Let_def)

lemma resolveDir_noWorkspace: "noWorkspace cfg \<Longrightarrow> resolveDir cfg dir = Inl noWorkspaceError"
  by (simp add: resolveDir_def getRemoteCwd_noWorkspace toRemotePath_noWorkspace split: option.splits)

lemma read_file_noWorkspace:
  "noWorkspace cfg \<Longrightarrow>
     read_file tr cfg st w p offset limit
       = (failure (''Error reading file: '' @ message noWorkspaceError), st, w)"
  by (simp add: read_file_def read_file_body_def toRemotePath_noWorkspace catchAs_def failure_def)

lemma write_file_noWorkspace:
  "noWorkspace cfg \<Longrightarrow>
     write_file tr cfg st w p content
       = (failure (''Error writing file: '' @ message noWorkspaceError), st, w)"
  by (simp add: write_file_def write_file_body_def getRemoteUri_noWorkspace catchAs_def failure_def)

lemma edit_file_noWorkspace:
  "noWorkspace cfg \<Longrightarrow>
     edit_file tr cfg st w p old_string new_string
       = (failure (''Error editing file: '' @ message noWorkspaceError), st, w)"
  by (simp add: edit_file_def edit_file_body_def getRemoteUri_noWorkspace catchAs_def failure_def)

lemma glob_noWorkspace:
  "noWorkspace cfg \<Longrightarrow>
     glob tr cfg st w pattern dir = (failure (''Error globbing: '' @ message noWorkspaceError), st, w)"
  by (simp add: glob_def glob_body_def resolveDir_noWorkspace catchAs_def failure_def)

lemma grep_noWorkspace:
  "noWorkspace cfg \<Longrightarrow>
     grep tr cfg st w pattern dir include context max_results
       = Some (failure (''Error running grep: '' @ message noWorkspaceError), st, w)"
  by (simp add: grep_def grep_body_def resolveDir_noWorkspace catchAs_def failure_def)

lemma bash_noWorkspace:
  "noWorkspace cfg \<Longrightarrow>
     bash tr cfg st w command dir timeout
       = Some (failure (''Error running bash: '' @ message noWorkspaceError), st, w)"
  by (simp add: bash_def bash_body_def resolveDir_noWorkspace catchAs_def failure_def)

text \<open>
  Claim C7, as amended. There is no resolver to construct: \<^verbatim>\<open>getRemoteCwd\<close> looks the
  workspace folders up on every call and throws when there is none, and so does
  \<^verbatim>\<open>toRemotePath\<close>. Each of the six handlers catches that exception and returns it as an
  error result whose message names the missing workspace folder; the bridge state and
  the world are left as they were.
\<close>

theorem missing_workspace_is_a_per_call_error:
  assumes "noWorkspace cfg"
  shows "getRemoteCwd cfg = Inl noWorkspaceError
         \<and> toRemotePath cfg p = Inl noWorkspaceError
         \<and> read_file tr cfg st w p offset limit
             = (failure (''Error reading file: '' @ message noWorkspaceError), st, w)
         \<and> write_file tr cfg st w p content
             = (failure (''Error writing file: '' @ message noWorkspaceError), st, w)
         \<and> edit_file tr cfg st w p old_string new_string
             = (failure (''Error editing file: '' @ message noWorkspaceError), st, w)
         \<and> glob tr cfg st w pattern dir
             = (failure (''Error globbing: '' @ message noWorkspaceError), st, w)
         \<and> grep tr cfg st w pattern dir include context max_results
             = Some (failure (''Error running grep: '' @ message noWorkspaceError), st, w)
         \<and> bash tr cfg st w command dir timeout
             = Some (failure (''Error running bash: '' @ message noWorkspaceError), st, w)"
  using assms
  by (simp add: getRemoteCwd_noWorkspace toRemotePath_noWorkspace read_file_noWorkspace
      write_file_noWorkspace edit_file_noWorkspace glob_noWorkspace grep_noWorkspace
      bash_noWorkspace)

lemma noWorkspace_noFolderConfig: "noWorkspace noFolderConfig"
  by (simp add: noWorkspace_def noFolderConfig_def)

theorem missing_workspace_is_a_per_call_error_witness:
  "noWorkspace noFolderConfig
   \<and> getRemoteCwd noFolderConfig = Inl noWorkspaceError
   \<and> bash exampleTransport noFolderConfig emptyBridge emptyWorld ''ls'' None None
       = Some (\<lparr>outputText = ''Error running bash: No workspace folder open; cannot determine remote working directory'',
                 isError = True\<rparr>, emptyBridge, emptyWorld)"
  using missing_workspace_is_a_per_call_error[OF noWorkspace_noFolderConfig,
      of "''notes.txt''" exampleTransport emptyBridge emptyWorld None None "[]" "[]" "[]" "[]" None
        None None None "''ls''" None]
    noWorkspace_noFolderConfig
  by (simp add: failure_def noWorkspaceError_def)

text \<open>
  The claim as stated fails: with no folder open, \<^verbatim>\<open>read_file\<close> returns a result with
  \<^verbatim>\<open>isError = true\<close>; the failure is converted into a per-call result.
\<close>

theorem missing_workspace_caught_by_read_file:
  "read_file exampleTransport noFolderConfig emptyBridge emptyWorld ''notes.txt'' None None
     = (\<lparr>outputText = ''Error reading file: No workspace folder open; cannot determine remote working directory'',
          isError = True\<rparr>, emptyBridge, emptyWorld)"
  by (simp add: read_file_def read_file_body_def toRemotePath_def getRemoteCwd_def noFolderConfig_def
      exampleConfig_def catchAs_def Let_def)

section \<open>Remote command execution\<close>

lemma pollLoop_timeout:
  "\<not> inTime tr startTime timeoutMs w \<Longrightarrow>
     pollLoop tr cfg tmpBase exitUri startTime timeoutMs w = Some (None, w)"
  by (subst pollLoop.simps) (simp add: inTime_def)

lemma pollLoop_skip:
  assumes "inTime tr startTime timeoutMs w" and "\<not> sentinelSeen tr exitUri w"
  shows "pollLoop tr cfg tmpBase exitUri startTime timeoutMs w
           = pollLoop tr cfg tmpBase exitUri startTime timeoutMs (snd (pollRead tr exitUri w))"
  using assms
  by (subst pollLoop.simps)
     (auto simp: inTime_def sentinelSeen_def pollRead_def Let_def split: prod.splits sum.splits)

lemma pollLoop_seen:
  assumes "inTime tr startTime timeoutMs w" and "sentinelSeen tr exitUri w"
    and "pollRead tr exitUri w = (Inr exitData, w2)"
  shows "pollLoop tr cfg tmpBase exitUri startTime timeoutMs w
           = Some (Some (sentinelResult tr cfg tmpBase exitData w2),
                   sendText tr
                     (snd (readOrDefault tr (snd (readOrDefault tr w2 (getRemoteUri cfg (tmpBase @ ''.out'')) []))
                             (getRemoteUri cfg (tmpBase @ ''.err'')) []))
                     (''rm -f '' @ tmpBase @ ''.out '' @ tmpBase @ ''.err '' @ tmpBase @ ''.exit''))"
  using assms
  by (subst pollLoop.simps)
     (auto simp: inTime_def sentinelSeen_def pollRead_def sentinelResult_def Let_def
           split: prod.splits sum.splits)

lemma pollLoop_nothingBefore:
  "nothingBefore tr exitUri startTime timeoutMs n w \<Longrightarrow>
     pollLoop tr cfg tmpBase exitUri startTime timeoutMs w
       = pollLoop tr cfg tmpBase exitUri startTime timeoutMs (pollWorld tr exitUri n w)"
  by (induction n arbitrary: w) (simp_all add: pollLoop_skip)

lemma pollLoop_timedOutAt:
  "timedOutAt tr exitUri startTime timeoutMs n w \<Longrightarrow>
     pollLoop tr cfg tmpBase exitUri startTime timeoutMs w = Some (None, pollWorld tr exitUri n w)"
  by (simp add: timedOutAt_def pollLoop_nothingBefore[of tr exitUri startTime timeoutMs n w]
      pollLoop_timeout)

lemma sentinelSeen_read:
  "sentinelSeen tr exitUri w \<Longrightarrow>
     \<exists>d. pollRead tr exitUri w = (Inr d, snd (pollRead tr exitUri w)) \<and> trim d \<noteq> []"
  by (cases "pollRead tr exitUri w") (auto simp: sentinelSeen_def split: sum.splits)

lemma decisive_step:
  assumes "inTime tr startTime timeoutMs w" and "\<not> sentinelSeen tr exitUri w"
  shows "timedOutAt tr exitUri startTime timeoutMs n (snd (pollRead tr exitUri w))
           \<Longrightarrow> timedOutAt tr exitUri startTime timeoutMs (Suc n) w"
    and "completedAt tr exitUri startTime timeoutMs n (snd (pollRead tr exitUri w))
           \<Longrightarrow> completedAt tr exitUri startTime timeoutMs (Suc n) w"
  using assms by (simp_all add: timedOutAt_def completedAt_def)

lemma pollRead_clock:
  "clockAdvances tr \<Longrightarrow> now tr w + 300 \<le> now tr (snd (pollRead tr exitUri w))"
proof -
  assume c: "clockAdvances tr"
  then have "now tr w + 300 \<le> now tr (sleep tr w 300)"
    unfolding clockAdvances_def by blast
  moreover have "now tr (sleep tr w 300) \<le> now tr (snd (readFile tr (sleep tr w 300) exitUri))"
    using c unfolding clockAdvances_def by blast
  ultimately show ?thesis by (simp add: pollRead_def)
qed

lemma polling_ends:
  assumes c: "clockAdvances tr"
  shows "\<exists>n. timedOutAt tr exitUri startTime timeoutMs n w
             \<or> completedAt tr exitUri startTime timeoutMs n w"
proof (induction "nat (startTime + timeoutMs - now tr w)" arbitrary: w rule: less_induct)
  case less
  show ?case
  proof (cases "inTime tr startTime timeoutMs w")
    case False
    then have "timedOutAt tr exitUri startTime timeoutMs 0 w"
      by (simp add: timedOutAt_def)
    then show ?thesis by blast
  next
    case True
    show ?thesis
    proof (cases "sentinelSeen tr exitUri w")
      case True
      with \<open>inTime tr startTime timeoutMs w\<close>
      have "completedAt tr exitUri startTime timeoutMs 0 w"
        by (simp add: completedAt_def)
      then show ?thesis by blast
    next
      case False
      let ?w = "snd (pollRead tr exitUri w)"
      have "nat (startTime + timeoutMs - now tr ?w) < nat (startTime + timeoutMs - now tr w)"
        using pollRead_clock[OF c, of w exitUri] True by (simp add: inTime_def)
      from less[OF this] obtain n where
        "timedOutAt tr exitUri startTime timeoutMs n ?w \<or> completedAt tr exitUri startTime timeoutMs n ?w"
        by blast
      then have "timedOutAt tr exitUri startTime timeoutMs (Suc n) w
                 \<or> completedAt tr exitUri startTime timeoutMs (Suc n) w"
        using decisive_step[OF True False] by blast
      then show ?thesis by blast
    qed
  qed
qed

lemma remoteExec_timedOut:
  assumes "submit tr st w command cwd = (tmpBase, st3, w3)"
    and "getRemoteUri cfg (tmpBase @ ''.exit'') = Inr exitUri"
    and "timedOutAt tr exitUri (now tr w3) timeoutMs n w3"
  shows "remoteExec tr cfg st w command cwd timeoutMs
           = Some (Inl (Error (''Command timed out after '' @ numberToString timeoutMs @ ''ms'')), st3,
                   sendText tr (pollWorld tr exitUri n w3)
                     (''kill %1 2>/dev/null; rm -f '' @ tmpBase @ ''.out '' @ tmpBase @ ''.err ''
                        @ tmpBase @ ''.exit''))"
  using assms(1,2) pollLoop_timedOutAt[OF assms(3), of cfg tmpBase]
  by (simp add: remoteExec_def)

lemma remoteExec_completed:
  assumes "submit tr st w command cwd = (tmpBase, st3, w3)"
    and "getRemoteUri cfg (tmpBase @ ''.exit'') = Inr exitUri"
    and "completedAt tr exitUri (now tr w3) timeoutMs n w3"
  shows "\<exists>exitData w' w''.
           pollRead tr exitUri (pollWorld tr exitUri n w3) = (Inr exitData, w')
           \<and> trim exitData \<noteq> []
           \<and> w'' = sendText tr
                       (snd (readOrDefault tr (snd (readOrDefault tr w' (getRemoteUri cfg (tmpBase @ ''.out'')) []))
                               (getRemoteUri cfg (tmpBase @ ''.err'')) []))
                       (''rm -f '' @ tmpBase @ ''.out '' @ tmpBase @ ''.err '' @ tmpBase @ ''.exit'')
           \<and> remoteExec tr cfg st w command cwd timeoutMs
               = Some (Inr (sentinelResult tr cfg tmpBase exitData w'), st3, w'')"
proof -
  let ?w = "pollWorld tr exitUri n w3"
  have nb: "nothingBefore tr exitUri (now tr w3) timeoutMs n w3"
    and it: "inTime tr (now tr w3) timeoutMs ?w" and seen: "sentinelSeen tr exitUri ?w"
    using assms(3) by (simp_all add: completedAt_def)
  obtain d w' where d: "pollRead tr exitUri ?w = (Inr d, w')" and nonblank: "trim d \<noteq> []"
    using sentinelSeen_read[OF seen] by metis
  have "pollLoop tr cfg tmpBase exitUri (now tr w3) timeoutMs w3
          = pollLoop tr cfg tmpBase exitUri (now tr w3) timeoutMs ?w"
    by (rule pollLoop_nothingBefore[OF nb])
  also note pollLoop_seen[OF it seen d, of cfg tmpBase]
  finally have "remoteExec tr cfg st w command cwd timeoutMs
                  = Some (Inr (sentinelResult tr cfg tmpBase d w'), st3,
                      sendText tr
                        (snd (readOrDefault tr (snd (readOrDefault tr w' (getRemoteUri cfg (tmpBase @ ''.out'')) []))
                                (getRemoteUri cfg (tmpBase @ ''.err'')) []))
                        (''rm -f '' @ tmpBase @ ''.out '' @ tmpBase @ ''.err '' @ tmpBase @ ''.exit''))"
    using assms(1,2) by (simp add: remoteExec_def)
  with d nonblank show ?thesis by blast
qed

lemma bash_via_remoteExec:
  assumes "\<not> useSSHExec cfg" and "resolveDir cfg dir = Inr cwd"
  shows "remoteExec tr cfg st w (bashCommand c) cwd (bashTimeout timeout) = Some (Inl e, st', w')
           \<Longrightarrow> bash tr cfg st w c dir timeout
                 = Some (failure (''Error running bash: '' @ message e), st', w')"
    and "remoteExec tr cfg st w (bashCommand c) cwd (bashTimeout timeout) = Some (Inr r, st', w')
           \<Longrightarrow> bash tr cfg st w c dir timeout
                 = Some (success (truncateOutput (bashOutput r) MAX_CHARS), st', w')"
  using assms
  by (simp_all add: bash_def bash_body_def execRemoteCommand_def catchAs_def failure_def Let_def)

lemma sshSettle_killed:
  "\<forall>ev \<in> set pre. \<not> isSettling ev \<Longrightarrow>
     sshSettle timeoutMs (pre @ Close code # rest) out err True
       = Some (Inl (Error (''SSH command timed out after '' @ numberToString timeoutMs @ ''ms'')))"
proof (induction pre arbitrary: out err)
  case Nil
  then show ?case by simp
next
  case (Cons ev pre)
  then show ?case by (cases ev) simp_all
qed

lemma sshSettle_timer:
  "\<forall>ev \<in> set pre. \<not> isSettling ev \<Longrightarrow> TimerFired \<in> set pre \<Longrightarrow>
     sshSettle timeoutMs (pre @ Close code # rest) out err killed
       = Some (Inl (Error (''SSH command timed out after '' @ numberToString timeoutMs @ ''ms'')))"
proof (induction pre arbitrary: out err killed)
  case Nil
  then show ?case by simp
next
  case (Cons ev pre)
  then show ?case by (cases ev) (auto simp: sshSettle_killed)
qed

lemma sshSettle_kept:
  "\<forall>ev \<in> set pre. \<not> isSettling ev \<Longrightarrow> TimerFired \<notin> set pre \<Longrightarrow>
     sshSettle timeoutMs (pre @ Close code # rest) out err False
       = Some (Inr \<lparr>stdout = foldl (\<lambda>acc d. if length acc < MAX_BUFFER then acc @ d else acc) out
                                (stdoutChunks pre),
                    stderr = foldl (\<lambda>acc d. if length acc < MAX_BUFFER then acc @ d else acc) err
                                (stderrChunks pre),
                    exitCode = code\<rparr>)"
proof (induction pre arbitrary: out err)
  case Nil
  then show ?case by simp
next
  case (Cons ev pre)
  then show ?case by (cases ev) simp_all
qed

lemma foldl_keep_concat:
  "length (acc @ concat chunks) \<le> MAX_BUFFER \<Longrightarrow>
     foldl (\<lambda>acc d. if length acc < MAX_BUFFER then acc @ d else acc) acc chunks
       = acc @ concat chunks"
proof (induction chunks arbitrary: acc)
  case Nil
  then show ?case by simp
next
  case (Cons d ds)
  show ?case
  proof (cases "length acc < MAX_BUFFER")
    case True
    then show ?thesis using Cons.IH[of "acc @ d"] Cons.prems by simp
  next
    case False
    from Cons.prems have "length acc + length d \<le> MAX_BUFFER" by simp
    with False have "\<not> 0 < length d" by linarith
    then have "d = []" by simp
    then show ?thesis using Cons.IH[of acc] Cons.prems False by simp
  qed
qed

lemma kept_concat: "length (concat chunks) \<le> MAX_BUFFER \<Longrightarrow> kept chunks = concat chunks"
  using foldl_keep_concat[of "[]" chunks] by (simp add: kept_def)

lemma sentinelResult_fields:
  "exitCode (sentinelResult tr cfg tmpBase exitData w)
     = Some (case parseInt10 (trim exitData) of None \<Rightarrow> 1 | Some c \<Rightarrow> c)"
  "getRemoteUri cfg (tmpBase @ ''.out'') = Inr outUri \<Longrightarrow>
     stdout (sentinelResult tr cfg tmpBase exitData w)
       = (case fst (readFile tr w outUri) of Inl e \<Rightarrow> [] | Inr d \<Rightarrow> d)"
  "getRemoteUri cfg (tmpBase @ ''.out'') = Inr outUri \<Longrightarrow>
   getRemoteUri cfg (tmpBase @ ''.err'') = Inr errUri \<Longrightarrow>
     stderr (sentinelResult tr cfg tmpBase exitData w)
       = (case fst (readFile tr (snd (readFile tr w outUri)) errUri) of Inl e \<Rightarrow> [] | Inr d \<Rightarrow> d)"
  by (auto simp: sentinelResult_def readOrDefault_def Let_def split: prod.splits sum.splits)

lemma sshExec_closed:
  assumes "spawnSsh tr w (buildSshArgs cfg host @ [cdPart cwd @ command]) timeoutMs
             = (pre @ Close code # rest, w1)"
    and "\<forall>ev \<in> set pre. \<not> isSettling ev"
  shows "TimerFired \<in> set pre \<Longrightarrow>
           sshExec tr cfg w host command cwd timeoutMs
             = Some (Inl (Error (''SSH command timed out after '' @ numberToString timeoutMs @ ''ms'')), w1)"
    and "TimerFired \<notin> set pre \<Longrightarrow>
           sshExec tr cfg w host command cwd timeoutMs
             = Some (Inr \<lparr>stdout = kept (stdoutChunks pre), stderr = kept (stderrChunks pre),
                          exitCode = code\<rparr>, w1)"
  using assms sshSettle_timer[OF assms(2), of timeoutMs code rest "[]" "[]" False]
    sshSettle_kept[OF assms(2), of timeoutMs code rest "[]" "[]"]
  by (auto simp: sshExec_def kept_def Let_def)

lemma bash_via_sshExec:
  assumes "useSSHExec cfg" and "getSshHost cfg = host" and "host \<noteq> []"
    and "resolveDir cfg dir = Inr cwd"
  shows "sshExec tr cfg w host (bashCommand c) cwd (bashTimeout timeout) = Some (Inl e, w')
           \<Longrightarrow> bash tr cfg st w c dir timeout
                 = Some (failure (''Error running bash: '' @ message e), st, w')"
    and "sshExec tr cfg w host (bashCommand c) cwd (bashTimeout timeout) = Some (Inr r, w')
           \<Longrightarrow> bash tr cfg st w c dir timeout
                 = Some (success (truncateOutput (bashOutput r) MAX_CHARS), st, w')"
  using assms
  by (simp_all add: bash_def bash_body_def execRemoteCommand_def catchAs_def failure_def Let_def)

lemma char_of_digits:
  "char_of (48::nat) = CHR ''0''" "char_of (49::nat) = CHR ''1''" "char_of (50::nat) = CHR ''2''"
  "char_of (51::nat) = CHR ''3''" "char_of (52::nat) = CHR ''4''" "char_of (53::nat) = CHR ''5''"
  "char_of (54::nat) = CHR ''6''" "char_of (55::nat) = CHR ''7''" "char_of (56::nat) = CHR ''8''"
  "char_of (57::nat) = CHR ''9''"
  by code_simp+

lemma numberToString_examples:
  "numberToString 1000 = ''1000''" "numberToString 1 = ''1''" "numberToString 50 = ''50''"
  by (simp_all add: numberToString_def digitsOfNat.simps char_of_digits)

lemma resolveDir_example: "resolveDir exampleConfig None = Inr ''/srv/proj''"
  by (simp add: resolveDir_def getRemoteCwd_exampleConfig toRemotePath_def getLocalCwd_exampleConfig
      posix_isAbsolute_def Let_def)

lemma getRemoteUri_example_tmp:
  "getRemoteUri exampleConfig (''/tmp/.claude_exec_1000_1'' @ ext)
     = Inr (''vscode-remote://ssh-remote+box/tmp/.claude_exec_1000_1'' @ ext)"
  by (simp add: getRemoteUri_def toRemotePath_def getLocalCwd_exampleConfig getSshHost_exampleConfig
      getRemoteCwd_exampleConfig posix_isAbsolute_def Let_def)

lemma submit_example:
  "submit exampleTransport emptyBridge emptyWorld command ''/srv/proj''
     = (''/tmp/.claude_exec_1000_1'', submittedBridge, submittedWorld command)"
  "submit doneTransport emptyBridge emptyWorld command ''/srv/proj''
     = (''/tmp/.claude_exec_1000_1'', submittedBridge, submittedWorld command)"
  by (simp_all add: submit_def getRemoteTerminal_def exampleTransport_def doneTransport_def
      emptyBridge_def emptyWorld_def numberToString_examples cdPart_def submittedWorld_def
      submittedBridge_def Let_def)

lemma useSSHExec_exampleConfig: "\<not> useSSHExec exampleConfig"
  by (simp add: exampleConfig_def)

lemma clockAdvances_example: "clockAdvances exampleTransport" "clockAdvances doneTransport"
  by (simp_all add: clockAdvances_def exampleTransport_def doneTransport_def split: option.splits)

lemma submit_example_more:
  "submit lateTransport emptyBridge emptyWorld command ''/srv/proj''
     = (''/tmp/.claude_exec_1000_1'', submittedBridge, submittedWorld command)"
  "submit oneSecondSsh emptyBridge emptyWorld command ''/srv/proj''
     = (''/tmp/.claude_exec_1000_1'', submittedBridge, submittedWorld command)"
  by (simp_all add: submit_def getRemoteTerminal_def exampleTransport_def lateTransport_def
      oneSecondSsh_def emptyBridge_def emptyWorld_def numberToString_examples cdPart_def
      submittedWorld_def submittedBridge_def Let_def)

lemma sshConfig_example:
  "useSSHExec sshConfig" "getSshHost sshConfig = ''box''"
  "resolveDir sshConfig None = Inr ''/srv/proj''"
  "getRemoteUri sshConfig (''/tmp/.claude_exec_1000_1'' @ ext)
     = Inr (''vscode-remote://ssh-remote+box/tmp/.claude_exec_1000_1'' @ ext)"
proof -
  have base: "getSshHost sshConfig = getSshHost exampleConfig"
    "getRemoteCwd sshConfig = getRemoteCwd exampleConfig"
    by (simp_all add: sshConfig_def getSshHost_def getRemoteCwd_def)
  have loc: "getLocalCwd sshConfig = getLocalCwd exampleConfig"
    unfolding getLocalCwd_def base by (simp add: sshConfig_def)
  have path: "toRemotePath sshConfig p = toRemotePath exampleConfig p" for p
    unfolding toRemotePath_def base loc by (rule refl)
  have same: "getSshHost sshConfig = getSshHost exampleConfig"
    "getRemoteUri sshConfig p = getRemoteUri exampleConfig p"
    "resolveDir sshConfig d = resolveDir exampleConfig d" for p d
    unfolding getRemoteUri_def resolveDir_def base path by (rule refl)+
  show "useSSHExec sshConfig"
    by (simp add: sshConfig_def)
  show "getSshHost sshConfig = ''box''"
    by (simp add: same getSshHost_exampleConfig)
  show "resolveDir sshConfig None = Inr ''/srv/proj''"
    by (simp add: same resolveDir_example)
  show "getRemoteUri sshConfig (''/tmp/.claude_exec_1000_1'' @ ext)
          = Inr (''vscode-remote://ssh-remote+box/tmp/.claude_exec_1000_1'' @ ext)"
    by (simp only: same getRemoteUri_example_tmp)
qed

lemma remoteExec_first_poll:
  assumes sub: "submit tr st w command cwd = (tmpBase, st3, w3)"
    and uri: "getRemoteUri cfg (tmpBase @ ''.exit'') = Inr exitUri"
    and time: "0 < timeoutMs"
    and rd: "pollRead tr exitUri w3 = (Inr d, w')" and nonblank: "trim d \<noteq> []"
  shows "\<exists>w''. remoteExec tr cfg st w command cwd timeoutMs
                  = Some (Inr (sentinelResult tr cfg tmpBase d w'), st3, w'')"
proof -
  have "completedAt tr exitUri (now tr w3) timeoutMs 0 w3"
    using time rd nonblank by (simp add: completedAt_def inTime_def sentinelSeen_def)
  from remoteExec_completed[OF sub uri this] rd show ?thesis by auto
qed

text \<open>
  Claim C5, with the deadline where the code tests it. A command was submitted with the
  sentinel base name \<open>tmpBase\<close>, leaving the world \<open>w3\<close> in which polling starts. The
  executor tests the deadline when a poll starts, before the wait of 300 ms and the
  read, and not when the sentinel is read. If at the start of a poll \<open>timeoutMs\<close> or more
  have passed since polling started, and no earlier poll has seen the exit sentinel, the
  executor sends the line that kills the job and removes the sentinels and fails with
  the error \<^verbatim>\<open>Command timed out after N ms\<close>, and \<^verbatim>\<open>bash\<close> (which runs its command
  through the executor with the given timeout, or 120000 ms) returns that as an error
  result. If a poll that starts less than \<open>timeoutMs\<close> after polling started sees the
  exit sentinel, whenever its read returns, the executor returns the exit code parsed
  from it and the texts of the two output sentinels, each empty when it cannot be
  read, after sending the line that removes the sentinels, and \<^verbatim>\<open>bash\<close> returns the
  output. When time passes, one of the two happens, so the executor returns. The
  executor over \<^verbatim>\<open>ssh\<close> fails with a timeout
  error when its timer fired before the process closed; otherwise it returns the exit
  code of the process and what it kept of the chunks of the two streams, which is all
  of them in order as long as they fit the buffer of 5 MiB; \<^verbatim>\<open>bash\<close> returns the one
  as an error result and the other as its output.
\<close>

theorem remote_command_times_out_or_returns:
  assumes sub: "submit tr st w command cwd = (tmpBase, st3, w3)"
    and uri: "getRemoteUri cfg (tmpBase @ ''.exit'') = Inr exitUri"
      "getRemoteUri cfg (tmpBase @ ''.out'') = Inr outUri"
      "getRemoteUri cfg (tmpBase @ ''.err'') = Inr errUri"
  shows "(timedOutAt tr exitUri (now tr w3) timeoutMs n w3 \<longrightarrow>
            (\<exists>w'. w' = sendText tr (pollWorld tr exitUri n w3)
                           (''kill %1 2>/dev/null; rm -f '' @ tmpBase @ ''.out '' @ tmpBase
                              @ ''.err '' @ tmpBase @ ''.exit'')
                   \<and> remoteExec tr cfg st w command cwd timeoutMs
                     = Some (Inl (Error (''Command timed out after '' @ numberToString timeoutMs @ ''ms'')),
                             st3, w')
                   \<and> (\<not> useSSHExec cfg \<and> resolveDir cfg dir = Inr cwd \<and> command = bashCommand c
                        \<and> timeoutMs = bashTimeout timeout \<longrightarrow>
                        bash tr cfg st w c dir timeout
                          = Some (failure (''Error running bash: Command timed out after ''
                                             @ numberToString timeoutMs @ ''ms''), st3, w'))))
         \<and> (completedAt tr exitUri (now tr w3) timeoutMs n w3 \<longrightarrow>
              (\<exists>exitData w' r w''.
                  pollRead tr exitUri (pollWorld tr exitUri n w3) = (Inr exitData, w')
                  \<and> trim exitData \<noteq> []
                  \<and> exitCode r = Some (case parseInt10 (trim exitData) of None \<Rightarrow> 1 | Some code \<Rightarrow> code)
                  \<and> stdout r = (case fst (readFile tr w' outUri) of Inl e \<Rightarrow> [] | Inr d \<Rightarrow> d)
                  \<and> stderr r = (case fst (readFile tr (snd (readFile tr w' outUri)) errUri) of
                                  Inl e \<Rightarrow> [] | Inr d \<Rightarrow> d)
                  \<and> w'' = sendText tr (snd (readFile tr (snd (readFile tr w' outUri)) errUri))
                            (''rm -f '' @ tmpBase @ ''.out '' @ tmpBase @ ''.err '' @ tmpBase @ ''.exit'')
                  \<and> remoteExec tr cfg st w command cwd timeoutMs = Some (Inr r, st3, w'')
                  \<and> (\<not> useSSHExec cfg \<and> resolveDir cfg dir = Inr cwd \<and> command = bashCommand c
                       \<and> timeoutMs = bashTimeout timeout \<longrightarrow>
                       bash tr cfg st w c dir timeout
                         = Some (success (truncateOutput (bashOutput r) MAX_CHARS), st3, w''))))
         \<and> (clockAdvances tr \<longrightarrow>
              (\<exists>m. timedOutAt tr exitUri (now tr w3) timeoutMs m w3
                    \<or> completedAt tr exitUri (now tr w3) timeoutMs m w3))
         \<and> bashTimeout None = 120000
         \<and> (spawnSsh tr w (buildSshArgs cfg host @ [cdPart cwd @ command]) timeoutMs
               = (pre @ Close code # rest, w1)
             \<and> (\<forall>ev \<in> set pre. \<not> isSettling ev) \<longrightarrow>
               (TimerFired \<in> set pre \<longrightarrow>
                  sshExec tr cfg w host command cwd timeoutMs
                    = Some (Inl (Error (''SSH command timed out after '' @ numberToString timeoutMs
                                          @ ''ms'')), w1)
                  \<and> (useSSHExec cfg \<and> getSshHost cfg = host \<and> host \<noteq> []
                       \<and> resolveDir cfg dir = Inr cwd \<and> command = bashCommand c
                       \<and> timeoutMs = bashTimeout timeout \<longrightarrow>
                       bash tr cfg st w c dir timeout
                         = Some (failure (''Error running bash: SSH command timed out after ''
                                            @ numberToString timeoutMs @ ''ms''), st, w1)))
               \<and> (TimerFired \<notin> set pre \<longrightarrow>
                    sshExec tr cfg w host command cwd timeoutMs
                      = Some (Inr \<lparr>stdout = kept (stdoutChunks pre), stderr = kept (stderrChunks pre),
                                   exitCode = code\<rparr>, w1)
                    \<and> (useSSHExec cfg \<and> getSshHost cfg = host \<and> host \<noteq> []
                         \<and> resolveDir cfg dir = Inr cwd \<and> command = bashCommand c
                         \<and> timeoutMs = bashTimeout timeout \<longrightarrow>
                         bash tr cfg st w c dir timeout
                           = Some (success (truncateOutput
                                     (bashOutput \<lparr>stdout = kept (stdoutChunks pre),
                                                  stderr = kept (stderrChunks pre), exitCode = code\<rparr>)
                                     MAX_CHARS), st, w1))))
         \<and> (length (concat chunks) \<le> MAX_BUFFER \<longrightarrow> kept chunks = concat chunks)"
proof (intro conjI impI)
  assume t: "timedOutAt tr exitUri (now tr w3) timeoutMs n w3"
  from remoteExec_timedOut[OF sub uri(1) t]
  show "\<exists>w'. w' = sendText tr (pollWorld tr exitUri n w3)
                       (''kill %1 2>/dev/null; rm -f '' @ tmpBase @ ''.out '' @ tmpBase
                          @ ''.err '' @ tmpBase @ ''.exit'')
               \<and> remoteExec tr cfg st w command cwd timeoutMs
                 = Some (Inl (Error (''Command timed out after '' @ numberToString timeoutMs @ ''ms'')),
                         st3, w')
               \<and> (\<not> useSSHExec cfg \<and> resolveDir cfg dir = Inr cwd \<and> command = bashCommand c
                    \<and> timeoutMs = bashTimeout timeout \<longrightarrow>
                    bash tr cfg st w c dir timeout
                      = Some (failure (''Error running bash: Command timed out after ''
                                         @ numberToString timeoutMs @ ''ms''), st3, w'))"
    using bash_via_remoteExec(1)[of cfg dir cwd tr st w c timeout _ st3]
    by auto
next
  assume c: "completedAt tr exitUri (now tr w3) timeoutMs n w3"
  from remoteExec_completed[OF sub uri(1) c] obtain exitData w' w'' where
    rd: "pollRead tr exitUri (pollWorld tr exitUri n w3) = (Inr exitData, w')"
    and nb: "trim exitData \<noteq> []"
    and wd: "w'' = sendText tr
                     (snd (readOrDefault tr (snd (readOrDefault tr w' (getRemoteUri cfg (tmpBase @ ''.out'')) []))
                             (getRemoteUri cfg (tmpBase @ ''.err'')) []))
                     (''rm -f '' @ tmpBase @ ''.out '' @ tmpBase @ ''.err '' @ tmpBase @ ''.exit'')"
    and ex: "remoteExec tr cfg st w command cwd timeoutMs
               = Some (Inr (sentinelResult tr cfg tmpBase exitData w'), st3, w'')"
    by blast
  have wd': "w'' = sendText tr (snd (readFile tr (snd (readFile tr w' outUri)) errUri))
                     (''rm -f '' @ tmpBase @ ''.out '' @ tmpBase @ ''.err '' @ tmpBase @ ''.exit'')"
    unfolding wd uri(2,3) by (simp add: readOrDefault_def split: prod.splits sum.splits)
  let ?r = "sentinelResult tr cfg tmpBase exitData w'"
  have "\<not> useSSHExec cfg \<and> resolveDir cfg dir = Inr cwd \<and> command = bashCommand c
          \<and> timeoutMs = bashTimeout timeout \<longrightarrow>
        bash tr cfg st w c dir timeout = Some (success (truncateOutput (bashOutput ?r) MAX_CHARS), st3, w'')"
    using bash_via_remoteExec(2)[of cfg dir cwd tr st w c timeout ?r st3 w''] ex by auto
  with rd nb wd' ex sentinelResult_fields(1)[of tr cfg tmpBase exitData w']
    sentinelResult_fields(2)[OF uri(2), of tr exitData w']
    sentinelResult_fields(3)[OF uri(2,3), of tr exitData w']
  show "\<exists>exitData w' r w''.
          pollRead tr exitUri (pollWorld tr exitUri n w3) = (Inr exitData, w')
          \<and> trim exitData \<noteq> []
          \<and> exitCode r = Some (case parseInt10 (trim exitData) of None \<Rightarrow> 1 | Some code \<Rightarrow> code)
          \<and> stdout r = (case fst (readFile tr w' outUri) of Inl e \<Rightarrow> [] | Inr d \<Rightarrow> d)
          \<and> stderr r = (case fst (readFile tr (snd (readFile tr w' outUri)) errUri) of
                          Inl e \<Rightarrow> [] | Inr d \<Rightarrow> d)
          \<and> w'' = sendText tr (snd (readFile tr (snd (readFile tr w' outUri)) errUri))
                    (''rm -f '' @ tmpBase @ ''.out '' @ tmpBase @ ''.err '' @ tmpBase @ ''.exit'')
          \<and> remoteExec tr cfg st w command cwd timeoutMs = Some (Inr r, st3, w'')
          \<and> (\<not> useSSHExec cfg \<and> resolveDir cfg dir = Inr cwd \<and> command = bashCommand c
               \<and> timeoutMs = bashTimeout timeout \<longrightarrow>
               bash tr cfg st w c dir timeout
                 = Some (success (truncateOutput (bashOutput r) MAX_CHARS), st3, w''))"
    by blast
next
  assume "clockAdvances tr"
  then show "\<exists>m. timedOutAt tr exitUri (now tr w3) timeoutMs m w3
                 \<or> completedAt tr exitUri (now tr w3) timeoutMs m w3"
    by (rule polling_ends)
next
  show "bashTimeout None = 120000"
    by (simp add: bashTimeout_def orZero_def DEFAULT_TIMEOUT_def)
next
  assume a: "spawnSsh tr w (buildSshArgs cfg host @ [cdPart cwd @ command]) timeoutMs
               = (pre @ Close code # rest, w1) \<and> (\<forall>ev \<in> set pre. \<not> isSettling ev)"
    and t: "TimerFired \<in> set pre"
  show "sshExec tr cfg w host command cwd timeoutMs
          = Some (Inl (Error (''SSH command timed out after '' @ numberToString timeoutMs
                                @ ''ms'')), w1)"
    using sshExec_closed(1)[of tr w cfg host cwd command timeoutMs pre code rest w1] a t by blast
next
  assume a: "spawnSsh tr w (buildSshArgs cfg host @ [cdPart cwd @ command]) timeoutMs
               = (pre @ Close code # rest, w1) \<and> (\<forall>ev \<in> set pre. \<not> isSettling ev)"
    and t: "TimerFired \<in> set pre"
    and h: "useSSHExec cfg \<and> getSshHost cfg = host \<and> host \<noteq> []
              \<and> resolveDir cfg dir = Inr cwd \<and> command = bashCommand c
              \<and> timeoutMs = bashTimeout timeout"
  have "sshExec tr cfg w host command cwd timeoutMs
          = Some (Inl (Error (''SSH command timed out after '' @ numberToString timeoutMs
                                @ ''ms'')), w1)"
    using sshExec_closed(1)[of tr w cfg host cwd command timeoutMs pre code rest w1] a t by blast
  then show "bash tr cfg st w c dir timeout
               = Some (failure (''Error running bash: SSH command timed out after ''
                                  @ numberToString timeoutMs @ ''ms''), st, w1)"
    using bash_via_sshExec(1)[of cfg host dir cwd tr w c timeout _ w1 st] h by auto
next
  assume a: "spawnSsh tr w (buildSshArgs cfg host @ [cdPart cwd @ command]) timeoutMs
               = (pre @ Close code # rest, w1) \<and> (\<forall>ev \<in> set pre. \<not> isSettling ev)"
    and t: "TimerFired \<notin> set pre"
  show "sshExec tr cfg w host command cwd timeoutMs
          = Some (Inr \<lparr>stdout = kept (stdoutChunks pre), stderr = kept (stderrChunks pre),
                       exitCode = code\<rparr>, w1)"
    using sshExec_closed(2)[of tr w cfg host cwd command timeoutMs pre code rest w1] a t by blast
next
  assume a: "spawnSsh tr w (buildSshArgs cfg host @ [cdPart cwd @ command]) timeoutMs
               = (pre @ Close code # rest, w1) \<and> (\<forall>ev \<in> set pre. \<not> isSettling ev)"
    and t: "TimerFired \<notin> set pre"
    and h: "useSSHExec cfg \<and> getSshHost cfg = host \<and> host \<noteq> []
              \<and> resolveDir cfg dir = Inr cwd \<and> command = bashCommand c
              \<and> timeoutMs = bashTimeout timeout"
  have "sshExec tr cfg w host command cwd timeoutMs
          = Some (Inr \<lparr>stdout = kept (stdoutChunks pre), stderr = kept (stderrChunks pre),
                       exitCode = code\<rparr>, w1)"
    using sshExec_closed(2)[of tr w cfg host cwd command timeoutMs pre code rest w1] a t by blast
  then show "bash tr cfg st w c dir timeout
               = Some (success (truncateOutput
                         (bashOutput \<lparr>stdout = kept (stdoutChunks pre),
                                      stderr = kept (stderrChunks pre), exitCode = code\<rparr>)
                         MAX_CHARS), st, w1)"
    using bash_via_sshExec(2)[of cfg host dir cwd tr w c timeout _ w1 st] h by auto
next
  assume "length (concat chunks) \<le> MAX_BUFFER"
  then show "kept chunks = concat chunks"
    by (rule kept_concat)
qed

theorem remote_command_times_out_or_returns_witness:
  "clockAdvances exampleTransport
   \<and> timedOutAt exampleTransport ''vscode-remote://ssh-remote+box/tmp/.claude_exec_1000_1.exit''
         1500 50 1 (submittedWorld (bashCommand ''sleep 10''))
   \<and> map_option fst (bash exampleTransport exampleConfig emptyBridge emptyWorld ''sleep 10'' None (Some 50))
       = Some \<lparr>outputText = ''Error running bash: Command timed out after 50ms'', isError = True\<rparr>
   \<and> completedAt doneTransport ''vscode-remote://ssh-remote+box/tmp/.claude_exec_1000_1.exit''
         1500 5000 0 (submittedWorld (bashCommand ''echo done''))
   \<and> map_option fst (bash doneTransport exampleConfig emptyBridge emptyWorld ''echo done'' None (Some 5000))
       = Some \<lparr>outputText = ''done'' @ [NL], isError = False\<rparr>
   \<and> map_option fst (bash oneSecondSsh sshConfig emptyBridge emptyWorld ''sleep 10'' None (Some 50))
       = Some \<lparr>outputText = ''Error running bash: SSH command timed out after 50ms'', isError = True\<rparr>
   \<and> map_option fst (bash oneSecondSsh sshConfig emptyBridge emptyWorld ''echo done'' None (Some 5000))
       = Some \<lparr>outputText = ''done'' @ [NL], isError = False\<rparr>
   \<and> kept [''do'', ''ne'' @ [NL]] = ''done'' @ [NL]"
proof -
  let ?exit = "''vscode-remote://ssh-remote+box/tmp/.claude_exec_1000_1.exit''"
  let ?out = "''vscode-remote://ssh-remote+box/tmp/.claude_exec_1000_1.out''"
  let ?err = "''vscode-remote://ssh-remote+box/tmp/.claude_exec_1000_1.err''"
  have uris: "getRemoteUri exampleConfig (''/tmp/.claude_exec_1000_1'' @ ''.exit'') = Inr ?exit"
    "getRemoteUri exampleConfig (''/tmp/.claude_exec_1000_1'' @ ''.out'') = Inr ?out"
    "getRemoteUri exampleConfig (''/tmp/.claude_exec_1000_1'' @ ''.err'') = Inr ?err"
    using getRemoteUri_example_tmp[of "''.exit''"] getRemoteUri_example_tmp[of "''.out''"]
      getRemoteUri_example_tmp[of "''.err''"] by simp_all
  have nossh: "\<not> useSSHExec exampleConfig" by (simp add: exampleConfig_def)
  have t: "timedOutAt exampleTransport ?exit 1500 50 1 (submittedWorld (bashCommand ''sleep 10''))"
    by (simp add: timedOutAt_def inTime_def sentinelSeen_def pollRead_def exampleTransport_def
        submittedWorld_def emptyWorld_def)
  have now1: "now exampleTransport (submittedWorld (bashCommand ''sleep 10'')) = 1500"
    by (simp add: exampleTransport_def submittedWorld_def)
  note inst1 = remote_command_times_out_or_returns
                 [OF submit_example(1)[of "bashCommand ''sleep 10''"] uris,
                  of 50 1 None "''sleep 10''" "Some 50"]
  have via1: "\<not> useSSHExec exampleConfig \<and> resolveDir exampleConfig None = Inr ''/srv/proj''
              \<and> bashCommand ''sleep 10'' = bashCommand ''sleep 10'' \<and> 50 = bashTimeout (Some 50)"
    using nossh resolveDir_example by (simp add: bashTimeout_def orZero_def)
  from conjunct1[OF inst1] t via1 obtain w' where
    "bash exampleTransport exampleConfig emptyBridge emptyWorld ''sleep 10'' None (Some 50)
       = Some (failure (''Error running bash: Command timed out after '' @ numberToString 50 @ ''ms''),
               submittedBridge, w')"
    unfolding now1 by blast
  then have b1: "map_option fst (bash exampleTransport exampleConfig emptyBridge emptyWorld ''sleep 10'' None (Some 50))
              = Some \<lparr>outputText = ''Error running bash: Command timed out after 50ms'', isError = True\<rparr>"
    by (simp add: failure_def numberToString_examples)
  have c: "completedAt doneTransport ?exit 1500 5000 0 (submittedWorld (bashCommand ''echo done''))"
    by (simp add: completedAt_def inTime_def sentinelSeen_def pollRead_def doneTransport_def
        exampleTransport_def submittedWorld_def emptyWorld_def endsWith_def trim_def isWhiteSpace_def)
  have now2: "now doneTransport (submittedWorld (bashCommand ''echo done'')) = 1500"
    by (simp add: doneTransport_def exampleTransport_def submittedWorld_def)
  have reads: "fst (readFile doneTransport w' ?out) = Inr (''done'' @ [NL])"
    "fst (readFile doneTransport w' ?err) = Inl (Error ''ENOENT: no such file or directory'')" for w'
    by (simp_all add: doneTransport_def endsWith_def)
  have out: "bashOutput r = ''done'' @ [NL]" if "stdout r = ''done'' @ [NL]" "stderr r = []" for r
    using that by (simp add: bashOutput_def)
  note inst2 = remote_command_times_out_or_returns
                 [OF submit_example(2)[of "bashCommand ''echo done''"] uris,
                  of 5000 0 None "''echo done''" "Some 5000"]
  have via2: "\<not> useSSHExec exampleConfig \<and> resolveDir exampleConfig None = Inr ''/srv/proj''
              \<and> bashCommand ''echo done'' = bashCommand ''echo done'' \<and> 5000 = bashTimeout (Some 5000)"
    using nossh resolveDir_example by (simp add: bashTimeout_def orZero_def)
  from conjunct1[OF conjunct2[OF inst2]] c via2 obtain r w'' where
    r: "stdout r = ''done'' @ [NL]" "stderr r = []"
    and "bash doneTransport exampleConfig emptyBridge emptyWorld ''echo done'' None (Some 5000)
           = Some (success (truncateOutput (bashOutput r) MAX_CHARS), submittedBridge, w'')"
    unfolding now2 reads by auto
  then have b2: "map_option fst (bash doneTransport exampleConfig emptyBridge emptyWorld ''echo done'' None (Some 5000))
              = Some \<lparr>outputText = ''done'' @ [NL], isError = False\<rparr>"
    using out[OF r] by (simp add: success_def truncateOutput_def MAX_CHARS_def)
  have sshUris: "getRemoteUri sshConfig (''/tmp/.claude_exec_1000_1'' @ ''.exit'') = Inr ?exit"
    "getRemoteUri sshConfig (''/tmp/.claude_exec_1000_1'' @ ''.out'') = Inr ?out"
    "getRemoteUri sshConfig (''/tmp/.claude_exec_1000_1'' @ ''.err'') = Inr ?err"
    using sshConfig_example(4)[of "''.exit''"] sshConfig_example(4)[of "''.out''"]
      sshConfig_example(4)[of "''.err''"] by simp_all
  note ssh1 = remote_command_times_out_or_returns
                [OF submit_example_more(2)[of "bashCommand ''sleep 10''"] sshUris,
                 where timeoutMs = 50 and host = "''box''" and pre = "[StdoutData ''do'', TimerFired]"
                   and code = None and rest = "[]" and ?w1.0 = emptyWorld and dir = None
                   and c = "''sleep 10''" and timeout = "Some 50"]
  have spawn1: "spawnSsh oneSecondSsh emptyWorld args 50
                  = ([StdoutData ''do'', TimerFired] @ Close None # [], emptyWorld)" for args
    by (simp add: oneSecondSsh_def)
  have open1: "\<forall>ev \<in> set [StdoutData ''do'', TimerFired]. \<not> isSettling ev"
    by simp
  have viaSsh1: "useSSHExec sshConfig \<and> getSshHost sshConfig = ''box'' \<and> ''box'' \<noteq> []
                 \<and> resolveDir sshConfig None = Inr ''/srv/proj''
                 \<and> bashCommand ''sleep 10'' = bashCommand ''sleep 10'' \<and> 50 = bashTimeout (Some 50)"
    using sshConfig_example(1,2,3) by (simp add: bashTimeout_def orZero_def)
  have fired: "TimerFired \<in> set [StdoutData ''do'', TimerFired]"
    by simp
  from ssh1[THEN conjunct2, THEN conjunct2, THEN conjunct2, THEN conjunct2, THEN conjunct1,
            THEN mp, OF conjI[OF spawn1 open1], THEN conjunct1, THEN mp, OF fired,
            THEN conjunct2, THEN mp, OF viaSsh1]
  have b3: "map_option fst (bash oneSecondSsh sshConfig emptyBridge emptyWorld ''sleep 10'' None (Some 50))
              = Some \<lparr>outputText = ''Error running bash: SSH command timed out after 50ms'', isError = True\<rparr>"
    by (simp add: failure_def numberToString_examples)
  note ssh2 = remote_command_times_out_or_returns
                [OF submit_example_more(2)[of "bashCommand ''echo done''"] sshUris,
                 where timeoutMs = 5000 and host = "''box''"
                   and pre = "[StdoutData ''do'', StderrData [], StdoutData (''ne'' @ [NL])]"
                   and code = "Some 0" and rest = "[]" and ?w1.0 = emptyWorld and dir = None
                   and c = "''echo done''" and timeout = "Some 5000"
                   and chunks = "[''do'', ''ne'' @ [NL]]"]
  have spawn2: "spawnSsh oneSecondSsh emptyWorld args 5000
                  = ([StdoutData ''do'', StderrData [], StdoutData (''ne'' @ [NL])] @ Close (Some 0) # [],
                     emptyWorld)" for args
    by (simp add: oneSecondSsh_def)
  have open2: "\<forall>ev \<in> set [StdoutData ''do'', StderrData [], StdoutData (''ne'' @ [NL])]. \<not> isSettling ev"
    by simp
  have viaSsh2: "useSSHExec sshConfig \<and> getSshHost sshConfig = ''box'' \<and> ''box'' \<noteq> []
                 \<and> resolveDir sshConfig None = Inr ''/srv/proj''
                 \<and> bashCommand ''echo done'' = bashCommand ''echo done'' \<and> 5000 = bashTimeout (Some 5000)"
    using sshConfig_example(1,2,3) by (simp add: bashTimeout_def orZero_def)
  have quiet: "TimerFired \<notin> set [StdoutData ''do'', StderrData [], StdoutData (''ne'' @ [NL])]"
    by simp
  have fits: "length (concat [''do'', ''ne'' @ [NL]]) \<le> MAX_BUFFER"
    by (simp add: MAX_BUFFER_def)
  from ssh2[THEN conjunct2, THEN conjunct2, THEN conjunct2, THEN conjunct2, THEN conjunct2,
            THEN mp, OF fits]
  have k: "kept [''do'', ''ne'' @ [NL]] = ''done'' @ [NL]"
    by simp
  from ssh2[THEN conjunct2, THEN conjunct2, THEN conjunct2, THEN conjunct2, THEN conjunct1,
            THEN mp, OF conjI[OF spawn2 open2], THEN conjunct2, THEN mp, OF quiet,
            THEN conjunct2, THEN mp, OF viaSsh2]
  have b4: "map_option fst (bash oneSecondSsh sshConfig emptyBridge emptyWorld ''echo done'' None (Some 5000))
              = Some \<lparr>outputText = ''done'' @ [NL], isError = False\<rparr>"
    using k by (simp add: success_def bashOutput_def truncateOutput_def MAX_CHARS_def kept_def)
  show ?thesis
    using clockAdvances_example(1) t b1 c b2 b3 b4 k by simp
qed

text \<open>
  The claim as worded, a timeout whenever no sentinel shows within \<open>timeoutMs\<close>, fails
  when the sentinel shows after the deadline and before the read of a poll that started
  in time. The command is submitted at the time 1500 with a timeout of 50 ms, and its
  exit sentinel is there from the time 1700 on, so there is none to observe within 50
  ms. The only poll starts at 1500, in time, and reads at 1800: the executor returns the
  command's output 300 ms after the submission, and \<^verbatim>\<open>bash\<close> returns it as a result that
  is not an error.
\<close>

theorem late_sentinel_is_returned:
  "submit lateTransport emptyBridge emptyWorld (bashCommand ''sleep 0.2; echo done'') ''/srv/proj''
     = (''/tmp/.claude_exec_1000_1'', submittedBridge,
        submittedWorld (bashCommand ''sleep 0.2; echo done''))
   \<and> now lateTransport (submittedWorld (bashCommand ''sleep 0.2; echo done'')) = 1500
   \<and> (\<forall>w. sentinelThere lateTransport
              ''vscode-remote://ssh-remote+box/tmp/.claude_exec_1000_1.exit'' w
            = (1700 \<le> now lateTransport w))
   \<and> map_option (\<lambda>(r, st, w). (r, now lateTransport w))
         (remoteExec lateTransport exampleConfig emptyBridge emptyWorld
            (bashCommand ''sleep 0.2; echo done'') ''/srv/proj'' 50)
       = Some (Inr \<lparr>stdout = ''done'' @ [NL], stderr = [], exitCode = Some 0\<rparr>, 1800)
   \<and> map_option fst (bash lateTransport exampleConfig emptyBridge emptyWorld
                        ''sleep 0.2; echo done'' None (Some 50))
       = Some \<lparr>outputText = ''done'' @ [NL], isError = False\<rparr>"
proof -
  let ?tr = lateTransport
  let ?cmd = "bashCommand ''sleep 0.2; echo done''"
  let ?exit = "''vscode-remote://ssh-remote+box/tmp/.claude_exec_1000_1.exit''"
  let ?w2 = "(submittedWorld ?cmd)\<lparr>clock := 1800\<rparr>"
  let ?res = "\<lparr>stdout = ''done'' @ [NL], stderr = [], exitCode = Some 0\<rparr>"
  note sub = submit_example_more(1)[of ?cmd]
  have start: "now ?tr (submittedWorld ?cmd) = 1500"
    by (simp add: lateTransport_def exampleTransport_def submittedWorld_def)
  have there: "sentinelThere ?tr ?exit w = (1700 \<le> now ?tr w)" for w
    by (simp add: sentinelThere_def lateTransport_def exampleTransport_def endsWith_def trim_def
        isWhiteSpace_def)
  have uri: "getRemoteUri exampleConfig (''/tmp/.claude_exec_1000_1'' @ ''.exit'') = Inr ?exit"
    using getRemoteUri_example_tmp[of "''.exit''"] by simp
  have rd: "pollRead ?tr ?exit (submittedWorld ?cmd) = (Inr (''0'' @ [NL]), ?w2)"
    by (simp add: pollRead_def lateTransport_def exampleTransport_def endsWith_def
        submittedWorld_def)
  have seen: "sentinelSeen ?tr ?exit (submittedWorld ?cmd)"
    using rd by (simp add: sentinelSeen_def trim_def isWhiteSpace_def)
  have it: "inTime ?tr (now ?tr (submittedWorld ?cmd)) 50 (submittedWorld ?cmd)"
    by (simp add: inTime_def)
  have res: "sentinelResult ?tr exampleConfig ''/tmp/.claude_exec_1000_1'' (''0'' @ [NL]) ?w2 = ?res"
    using getRemoteUri_example_tmp[of "''.out''"] getRemoteUri_example_tmp[of "''.err''"]
    by (simp add: sentinelResult_def readOrDefault_def lateTransport_def endsWith_def
        trim_def isWhiteSpace_def parseInt10_def isDigit_def digitsValue_def Let_def)
  have world: "snd (readOrDefault ?tr w u d) = w"
    "now ?tr (sendText ?tr w line) = now ?tr w" for w u d line
    by (auto simp: readOrDefault_def lateTransport_def exampleTransport_def
             split: sum.splits prod.splits)
  have ex: "remoteExec ?tr exampleConfig emptyBridge emptyWorld ?cmd ''/srv/proj'' 50
              = Some (Inr ?res, submittedBridge,
                      sendText ?tr ?w2
                        (''rm -f '' @ ''/tmp/.claude_exec_1000_1'' @ ''.out ''
                           @ ''/tmp/.claude_exec_1000_1'' @ ''.err '' @ ''/tmp/.claude_exec_1000_1''
                           @ ''.exit''))"
    using sub uri pollLoop_seen[OF it seen rd, of exampleConfig "''/tmp/.claude_exec_1000_1''"] res
    by (simp add: remoteExec_def world)
  have clock2: "now ?tr ?w2 = 1800"
    by (simp add: lateTransport_def exampleTransport_def)
  have r: "map_option (\<lambda>(r, st, w). (r, now ?tr w))
             (remoteExec ?tr exampleConfig emptyBridge emptyWorld ?cmd ''/srv/proj'' 50)
           = Some (Inr ?res, 1800)"
    by (simp add: ex world clock2)
  have b: "map_option fst (bash ?tr exampleConfig emptyBridge emptyWorld
                             ''sleep 0.2; echo done'' None (Some 50))
           = Some \<lparr>outputText = ''done'' @ [NL], isError = False\<rparr>"
    using bash_via_remoteExec(2)[OF useSSHExec_exampleConfig resolveDir_example,
            of ?tr emptyBridge emptyWorld "''sleep 0.2; echo done''" "Some 50"] ex
    by (simp add: bashTimeout_def orZero_def success_def bashOutput_def truncateOutput_def
        MAX_CHARS_def)
  show ?thesis
    using sub start there r b by simp
qed

section \<open>Searching with a fallback\<close>

lemma grep_no_fallback:
  assumes "resolveDir cfg dir = Inr cwd"
    and "execRemoteCommand tr cfg st w (rgCommand pattern include context max_results) cwd
           DEFAULT_TIMEOUT = Some (Inr r1, st1, w1)"
    and "\<not> toolAbsent r1"
  shows "grep tr cfg st w pattern dir include context max_results = Some (grepResult r1, st1, w1)"
  using assms by (simp add: grep_def grep_body_def catchAs_def)

lemma grep_fallback:
  assumes "resolveDir cfg dir = Inr cwd"
    and "execRemoteCommand tr cfg st w (rgCommand pattern include context max_results) cwd
           DEFAULT_TIMEOUT = Some (Inr r1, st1, w1)"
    and "toolAbsent r1"
    and "execRemoteCommand tr cfg st1 w1 (grepCommand pattern include context max_results) cwd
           DEFAULT_TIMEOUT = Some (Inr r2, st2, w2)"
  shows "grep tr cfg st w pattern dir include context max_results = Some (grepResult r2, st2, w2)"
  using assms by (simp add: grep_def grep_body_def catchAs_def)

lemma str_includes_nonempty: "x \<noteq> [] \<Longrightarrow> str_includes s x \<Longrightarrow> s \<noteq> []"
  by (cases s) auto

lemma toolAbsent_iff:
  "toolAbsent r \<longleftrightarrow> exitCode r = Some 127 \<or> str_includes (stderr r) ''command not found''"
  using str_includes_nonempty[of "''command not found''" "stderr r"]
  by (auto simp: toolAbsent_def)

lemma grepResult_cases:
  "exitCode r = Some 1 \<and> stdout r = [] \<longrightarrow>
     grepResult r = \<lparr>outputText = ''No matches found.'', isError = False\<rparr>"
  "exitCode r = Some c \<and> c > 1 \<longrightarrow>
     grepResult r = \<lparr>outputText = ''grep error (exit '' @ numberToString c @ ''): ''
                                   @ (if stderr r \<noteq> [] then stderr r else stdout r),
                    isError = True\<rparr>"
  "\<not> (exitCode r = Some 1 \<and> stdout r = []) \<and> (\<forall>c. exitCode r = Some c \<longrightarrow> c \<le> 1) \<longrightarrow>
     grepResult r = \<lparr>outputText = truncateOutput (stdout r) MAX_CHARS, isError = False\<rparr>"
  by (auto simp: grepResult_def success_def failure_def split: option.splits)

lemma getRemoteUri_example_absolute:
  "getRemoteUri exampleConfig (''/tmp/'' @ name) = Inr (''vscode-remote://ssh-remote+box/tmp/'' @ name)"
  by (simp add: getRemoteUri_def toRemotePath_def getLocalCwd_exampleConfig getSshHost_exampleConfig
      getRemoteCwd_exampleConfig posix_isAbsolute_def Let_def)

lemma numberToString_more: "numberToString 1800 = ''1800''" "numberToString 2 = ''2''"
  by (simp_all add: numberToString_def digitsOfNat.simps char_of_digits)

lemma rgMissing_world:
  "snd (readOrDefault rgMissingTransport w u d) = w"
  "clock (sendText rgMissingTransport w line) = clock w"
  by (auto simp: readOrDefault_def rgMissingTransport_def exampleTransport_def
           split: sum.splits prod.splits)

lemma rgMissing_first:
  "\<exists>w1. execRemoteCommand rgMissingTransport exampleConfig emptyBridge emptyWorld command
            ''/srv/proj'' 120000
          = Some (Inr \<lparr>stdout = [], stderr = ''bash: rg: command not found'', exitCode = Some 127\<rparr>,
                  submittedBridge, w1)
        \<and> clock w1 = 1800"
proof -
  let ?tr = rgMissingTransport
  have sub: "submit ?tr emptyBridge emptyWorld command ''/srv/proj''
               = (''/tmp/.claude_exec_1000_1'', submittedBridge, submittedWorld command)"
    by (simp add: submit_def getRemoteTerminal_def exampleTransport_def rgMissingTransport_def
        emptyBridge_def emptyWorld_def numberToString_examples cdPart_def submittedWorld_def
        submittedBridge_def Let_def)
  have uri: "getRemoteUri exampleConfig (''/tmp/.claude_exec_1000_1'' @ ''.exit'')
               = Inr ''vscode-remote://ssh-remote+box/tmp/.claude_exec_1000_1.exit''"
    using getRemoteUri_example_absolute[of "''.claude_exec_1000_1.exit''"] by simp
  have rd: "pollRead ?tr ''vscode-remote://ssh-remote+box/tmp/.claude_exec_1000_1.exit''
              (submittedWorld command) = (Inr ''127'', (submittedWorld command)\<lparr>clock := 1800\<rparr>)"
    by (simp add: pollRead_def rgMissingTransport_def exampleTransport_def endsWith_def
        submittedWorld_def)
  have nb: "trim ''127'' \<noteq> []"
    by (simp add: trim_def isWhiteSpace_def)
  have res: "sentinelResult ?tr exampleConfig ''/tmp/.claude_exec_1000_1'' ''127'' w'
               = \<lparr>stdout = [], stderr = ''bash: rg: command not found'', exitCode = Some 127\<rparr>" for w'
    using getRemoteUri_example_absolute[of "''.claude_exec_1000_1.out''"]
      getRemoteUri_example_absolute[of "''.claude_exec_1000_1.err''"]
    by (simp add: sentinelResult_def readOrDefault_def rgMissingTransport_def endsWith_def
        trim_def isWhiteSpace_def parseInt10_def isDigit_def digitsValue_def Let_def)
  have "remoteExec ?tr exampleConfig emptyBridge emptyWorld command ''/srv/proj'' 120000
          = Some (Inr (sentinelResult ?tr exampleConfig ''/tmp/.claude_exec_1000_1'' ''127''
                         ((submittedWorld command)\<lparr>clock := 1800\<rparr>)),
                  submittedBridge,
                  sendText ?tr
                    (snd (readOrDefault ?tr
                            (snd (readOrDefault ?tr ((submittedWorld command)\<lparr>clock := 1800\<rparr>)
                                    (getRemoteUri exampleConfig (''/tmp/.claude_exec_1000_1'' @ ''.out'')) []))
                            (getRemoteUri exampleConfig (''/tmp/.claude_exec_1000_1'' @ ''.err'')) []))
                    (''rm -f '' @ ''/tmp/.claude_exec_1000_1'' @ ''.out '' @ ''/tmp/.claude_exec_1000_1''
                       @ ''.err '' @ ''/tmp/.claude_exec_1000_1'' @ ''.exit''))"
    using sub uri
      pollLoop_seen[of ?tr "now ?tr (submittedWorld command)" 120000 "submittedWorld command"
        "''vscode-remote://ssh-remote+box/tmp/.claude_exec_1000_1.exit''" "''127''"
        "(submittedWorld command)\<lparr>clock := 1800\<rparr>" exampleConfig "''/tmp/.claude_exec_1000_1''"]
      rd nb
    by (simp add: remoteExec_def inTime_def sentinelSeen_def)
  then show ?thesis
    by (simp add: execRemoteCommand_def useSSHExec_exampleConfig res rgMissing_world)
qed

lemma rgMissing_second:
  assumes "clock w1 = 1800"
  shows "\<exists>st2 w2. execRemoteCommand rgMissingTransport exampleConfig submittedBridge w1 command
                     ''/srv/proj'' 120000
                   = Some (Inr \<lparr>stdout = ''./a.txt:1:x'', stderr = [], exitCode = Some 0\<rparr>, st2, w2)"
proof -
  let ?tr = rgMissingTransport
  obtain st3 w3 where sub: "submit ?tr submittedBridge w1 command ''/srv/proj''
                              = (''/tmp/.claude_exec_1800_2'', st3, w3)"
    using assms
    by (simp add: submit_def getRemoteTerminal_def exampleTransport_def rgMissingTransport_def
        submittedBridge_def emptyBridge_def numberToString_more Let_def)
  have uri: "getRemoteUri exampleConfig (''/tmp/.claude_exec_1800_2'' @ ''.exit'')
               = Inr ''vscode-remote://ssh-remote+box/tmp/.claude_exec_1800_2.exit''"
    using getRemoteUri_example_absolute[of "''.claude_exec_1800_2.exit''"] by simp
  obtain w' where rd: "pollRead ?tr ''vscode-remote://ssh-remote+box/tmp/.claude_exec_1800_2.exit'' w3
                         = (Inr ''0'', w')"
    by (simp add: pollRead_def rgMissingTransport_def exampleTransport_def endsWith_def)
  have nb: "trim ''0'' \<noteq> []"
    by (simp add: trim_def isWhiteSpace_def)
  have res: "sentinelResult ?tr exampleConfig ''/tmp/.claude_exec_1800_2'' ''0'' w'
               = \<lparr>stdout = ''./a.txt:1:x'', stderr = [], exitCode = Some 0\<rparr>"
    using getRemoteUri_example_absolute[of "''.claude_exec_1800_2.out''"]
      getRemoteUri_example_absolute[of "''.claude_exec_1800_2.err''"]
    by (simp add: sentinelResult_def readOrDefault_def rgMissingTransport_def endsWith_def
        trim_def isWhiteSpace_def parseInt10_def isDigit_def digitsValue_def Let_def)
  from remoteExec_first_poll[OF sub uri _ rd nb, of 120000] res
  show ?thesis
    by (auto simp: execRemoteCommand_def useSSHExec_exampleConfig)
qed

text \<open>
  Claim C6. The primary \<^verbatim>\<open>rg\<close> command has returned the result \<open>r1\<close>. Unless its
  exit code is 127 or its error output contains \<^verbatim>\<open>command not found\<close>, the handler
  answers from \<open>r1\<close> without running anything else. Otherwise it runs the fallback
  \<^verbatim>\<open>grep\<close> command once and answers from that result, whatever it is (a second
  absent tool is not retried). The answer from a result: exit code 1 with an empty
  output is the non-error \<^verbatim>\<open>No matches found.\<close>; an exit code above 1 is an error
  result; anything else is the output, cut to the budget, as a non-error result.
\<close>

theorem grep_falls_back_once_and_classifies:
  assumes "resolveDir cfg dir = Inr cwd"
    and "execRemoteCommand tr cfg st w (rgCommand pattern include context max_results) cwd 120000
           = Some (Inr r1, st1, w1)"
  shows "(\<not> (exitCode r1 = Some 127 \<or> str_includes (stderr r1) ''command not found'') \<longrightarrow>
            grep tr cfg st w pattern dir include context max_results = Some (grepResult r1, st1, w1))
         \<and> ((exitCode r1 = Some 127 \<or> str_includes (stderr r1) ''command not found'') \<longrightarrow>
              (\<forall>r2 st2 w2.
                 execRemoteCommand tr cfg st1 w1 (grepCommand pattern include context max_results)
                   cwd 120000 = Some (Inr r2, st2, w2)
                 \<longrightarrow> grep tr cfg st w pattern dir include context max_results
                       = Some (grepResult r2, st2, w2)))
         \<and> (\<forall>r. (exitCode r = Some 1 \<and> stdout r = [] \<longrightarrow>
                    grepResult r = \<lparr>outputText = ''No matches found.'', isError = False\<rparr>)
                \<and> (\<forall>c. exitCode r = Some c \<and> c > 1 \<longrightarrow>
                      grepResult r = \<lparr>outputText = ''grep error (exit '' @ numberToString c @ ''): ''
                                                    @ (if stderr r \<noteq> [] then stderr r else stdout r),
                                     isError = True\<rparr>)
                \<and> (\<not> (exitCode r = Some 1 \<and> stdout r = []) \<and> (\<forall>c. exitCode r = Some c \<longrightarrow> c \<le> 1) \<longrightarrow>
                      grepResult r = \<lparr>outputText = truncateOutput (stdout r) MAX_CHARS,
                                     isError = False\<rparr>))"
proof -
  have first: "execRemoteCommand tr cfg st w (rgCommand pattern include context max_results) cwd
                 DEFAULT_TIMEOUT = Some (Inr r1, st1, w1)"
    using assms(2) by (simp add: DEFAULT_TIMEOUT_def)
  show ?thesis
    using grep_no_fallback[OF assms(1) first] grep_fallback[OF assms(1) first]
      grepResult_cases
    by (simp add: toolAbsent_iff DEFAULT_TIMEOUT_def)
qed

text \<open>
  On a host without \<^verbatim>\<open>rg\<close> the first command ends with status 127, the fallback
  prints one match, and the handler returns that match.
\<close>

theorem grep_falls_back_once_and_classifies_witness:
  "resolveDir exampleConfig None = Inr ''/srv/proj''
   \<and> map_option fst (grep rgMissingTransport exampleConfig emptyBridge emptyWorld ''x'' None None
                        None None)
       = Some \<lparr>outputText = ''./a.txt:1:x'', isError = False\<rparr>"
proof -
  let ?r1 = "\<lparr>stdout = [], stderr = ''bash: rg: command not found'', exitCode = Some 127\<rparr>"
  let ?r2 = "\<lparr>stdout = ''./a.txt:1:x'', stderr = [], exitCode = Some 0\<rparr>"
  obtain w1 where first:
    "execRemoteCommand rgMissingTransport exampleConfig emptyBridge emptyWorld
       (rgCommand ''x'' None None None) ''/srv/proj'' 120000 = Some (Inr ?r1, submittedBridge, w1)"
    and clock: "clock w1 = 1800"
    using rgMissing_first by blast
  obtain st2 w2 where second:
    "execRemoteCommand rgMissingTransport exampleConfig submittedBridge w1
       (grepCommand ''x'' None None None) ''/srv/proj'' 120000 = Some (Inr ?r2, st2, w2)"
    using rgMissing_second[OF clock] by blast
  note inst = grep_falls_back_once_and_classifies[OF resolveDir_example first]
  have absent: "exitCode ?r1 = Some 127 \<or> str_includes (stderr ?r1) ''command not found''"
    by simp
  from conjunct1[OF conjunct2[OF inst]] absent second
  have g: "grep rgMissingTransport exampleConfig emptyBridge emptyWorld ''x'' None None None None
             = Some (grepResult ?r2, st2, w2)"
    by blast
  have "\<not> (exitCode ?r2 = Some 1 \<and> stdout ?r2 = []) \<and> (\<forall>c. exitCode ?r2 = Some c \<longrightarrow> c \<le> 1)"
    by simp
  with conjunct2[OF conjunct2[OF inst]]
  have "grepResult ?r2 = \<lparr>outputText = truncateOutput (stdout ?r2) MAX_CHARS, isError = False\<rparr>"
    by blast
  then show ?thesis
    using g resolveDir_example by (simp add: truncateOutput_def MAX_CHARS_def)
qed

section \<open>Errors at the handler boundary\<close>















section \<open>Reading a slice of lines\<close>

lemma arraySlice_numbered_nat:
  "arraySlice lines (int a) (int h) = linesNumbered lines (int a + 1) (int h)"
proof -
  let ?n = "length lines"
  let ?m = "min h ?n"
  have slice: "arraySlice lines (int a) (int h) = take (?m - min a ?n) (drop (min a ?n) lines)"
    by (simp add: arraySlice_def relativeIndex_def Let_def)
  have numbered: "linesNumbered lines (int a + 1) (int h)
                    = map (\<lambda>k. lines ! nat (k - 1)) [int a + 1..int ?m]"
    by (simp add: linesNumbered_def max_def min_def)
  show ?thesis
  proof (cases "a < ?m")
    case False
    then have le: "?m \<le> a" by (simp only: not_less)
    then have "int ?m < int a + 1" by linarith
    then have "[int a + 1..int ?m] = []" by (simp only: upto_empty)
    moreover have "?m - min a ?n = 0" using le by (auto simp: min_def)
    ultimately show ?thesis unfolding slice numbered by simp
  next
    case True
    then have k: "min a ?n = a" by simp
    show ?thesis
      unfolding slice numbered k
    proof (rule nth_equalityI)
      have "?m - a \<le> ?n - a" by (simp add: diff_le_mono)
      then have l1: "length (take (?m - a) (drop a lines)) = ?m - a" by simp
      have "int ?m - (int a + 1) + 1 = int (?m - a)" using True by linarith
      then have l2: "length [int a + 1..int ?m] = ?m - a" by (simp only: length_upto nat_int)
      show "length (take (?m - a) (drop a lines)) = length (map (\<lambda>k. lines ! nat (k - 1)) [int a + 1..int ?m])"
        using l1 l2 by (simp only: length_map)
      fix i assume "i < length (take (?m - a) (drop a lines))"
      then have i: "i < ?m - a" by (simp only: l1)
      then have up: "[int a + 1..int ?m] ! i = int a + 1 + int i"
        by (intro nth_upto) simp
      have "a + i < ?n" using i by simp
      then show "take (?m - a) (drop a lines) ! i = map (\<lambda>k. lines ! nat (k - 1)) [int a + 1..int ?m] ! i"
        using i up by (simp add: nat_add_distrib)
    qed
  qed
qed

lemma arraySlice_numbered:
  assumes "1 \<le> lo" and "0 \<le> hi"
  shows "arraySlice lines (lo - 1) hi = linesNumbered lines lo hi"
  using arraySlice_numbered_nat[of lines "nat (lo - 1)" "nat hi"] assms by simp

lemma sliceLines_in_range:
  "1 \<le> off \<Longrightarrow> 1 \<le> lim \<Longrightarrow>
     sliceLines txt (Some off) (Some lim)
       = joinWith [NL] (linesNumbered (splitChar NL txt) off (off + lim - 1))"
  "1 \<le> off \<Longrightarrow>
     sliceLines txt (Some off) None
       = joinWith [NL] (linesNumbered (splitChar NL txt) off (int (length (splitChar NL txt))))"
  "1 \<le> lim \<Longrightarrow>
     sliceLines txt None (Some lim) = joinWith [NL] (linesNumbered (splitChar NL txt) 1 lim)"
  using arraySlice_numbered[of off "off - 1 + lim" "splitChar NL txt"]
    arraySlice_numbered[of off "int (length (splitChar NL txt))" "splitChar NL txt"]
    arraySlice_numbered[of 1 lim "splitChar NL txt"]
  by (simp_all add: sliceLines_def Let_def add.commute add_diff_eq)

lemma toRemotePath_notes: "toRemotePath exampleConfig ''notes.txt'' = Inr ''/srv/proj/notes.txt''"
  by (rule toRemotePath_example_relative)

lemma read_file_notes:
  "read_file exampleTransport exampleConfig emptyBridge (notesWorld txt) ''notes.txt'' offset limit
     = (success (truncateOutput (sliceLines txt offset limit) MAX_CHARS), emptyBridge, notesWorld txt)"
  by (simp add: read_file_def read_file_body_def toRemotePath_notes getRemoteUri_def getCachedWrite_def
      getSshHost_exampleConfig catchAs_def exampleTransport_def emptyBridge_def notesWorld_def
      notesUri_def Let_def)

text \<open>
  Claim C8 fails on the code at the limit 0 and at the offset 0. On the three lines
  \<^verbatim>\<open>a\<close>, \<^verbatim>\<open>b\<close>, \<^verbatim>\<open>c\<close>: with offset 1 and limit 0 the handler returns all three
  lines, where the lines numbered 1 through 0 are none; with offset 0 and limit 2 it
  returns the empty text, where the lines numbered 0 through 1 are the first line. (For
  an offset and a limit of at least 1 the slice is the claimed one:
  \<open>sliceLines_in_range\<close>.)
\<close>

theorem read_file_limit_zero_reads_to_the_end:
  "read_file exampleTransport exampleConfig emptyBridge (notesWorld (''a'' @ [NL] @ ''b'' @ [NL] @ ''c''))
     ''notes.txt'' (Some 1) (Some 0)
     = (success (''a'' @ [NL] @ ''b'' @ [NL] @ ''c''), emptyBridge,
        notesWorld (''a'' @ [NL] @ ''b'' @ [NL] @ ''c''))
   \<and> linesNumbered [''a'', ''b'', ''c''] 1 (1 + 0 - 1) = []
   \<and> read_file exampleTransport exampleConfig emptyBridge (notesWorld (''a'' @ [NL] @ ''b'' @ [NL] @ ''c''))
       ''notes.txt'' (Some 0) (Some 2)
       = (success [], emptyBridge, notesWorld (''a'' @ [NL] @ ''b'' @ [NL] @ ''c''))
   \<and> linesNumbered [''a'', ''b'', ''c''] 0 (0 + 2 - 1) = [''a'']"
  by (simp add: read_file_notes sliceLines_def arraySlice_def relativeIndex_def linesNumbered_def
      truncateOutput_def MAX_CHARS_def Let_def)

section \<open>Editing by a unique anchor\<close>

lemma getSubstitution_literal:
  "DOLLAR \<notin> set y \<Longrightarrow> getSubstitution matched preceding following y = y"
  by (induction matched preceding following y rule: getSubstitution.induct) auto

lemma indexOf_Some:
  "indexOf s x = Some i \<Longrightarrow>
     i \<le> length s \<and> startsWith (drop i s) x \<and> (\<forall>j<i. \<not> startsWith (drop j s) x)"
proof (induction s arbitrary: i)
  case Nil
  then show ?case by (auto split: if_splits)
next
  case (Cons c cs)
  show ?case
  proof (cases "startsWith (c # cs) x")
    case True
    then show ?thesis using Cons.prems by simp
  next
    case False
    then obtain k where k: "indexOf cs x = Some k" "i = Suc k"
      using Cons.prems by auto
    from Cons.IH[OF k(1)] False k(2) show ?thesis
      by (auto simp: less_Suc_eq_0_disj)
  qed
qed

lemma str_includes_indexOf: "str_includes s x \<longleftrightarrow> indexOf s x \<noteq> None"
  by (induction s) auto

lemma jsReplace_literal:
  assumes "indexOf s x = Some i" and "DOLLAR \<notin> set y"
  shows "jsReplace s x y = take i s @ y @ drop (i + length x) s"
  using assms by (simp add: jsReplace_def Let_def getSubstitution_literal)

lemma edit_file_outcomes:
  assumes rp: "toRemotePath cfg p = Inr rp"
    and none: "editOverride st = None" "reviewEdit tr = None" "writeCache st rp = None"
    and rd: "readFile tr w (''vscode-remote://ssh-remote+'' @ getSshHost cfg @ rp) = (Inr oldText, w1)"
  shows "(\<not> str_includes oldText x \<longrightarrow>
            edit_file tr cfg st w p x y
              = (failure (''Error: old_string not found in '' @ p), st, w1))
         \<and> (str_includes oldText x \<and> 1 < int (length (jsSplit oldText x)) - 1 \<longrightarrow>
              edit_file tr cfg st w p x y
                = (failure (''Error: old_string found ''
                              @ numberToString (int (length (jsSplit oldText x)) - 1)
                              @ '' times in '' @ p @ ''. Provide more context to make it unique.''),
                   st, w1))
         \<and> (str_includes oldText x \<and> int (length (jsSplit oldText x)) - 1 \<le> 1 \<longrightarrow>
              edit_file_body tr cfg st w p x y
                = commit tr st w1 (''vscode-remote://ssh-remote+'' @ getSshHost cfg @ rp) rp oldText
                    (jsReplace oldText x y) (''Successfully edited '' @ p))"
  using assms
  by (simp add: edit_file_def edit_file_body_def getRemoteUri_ok consumeEditOverride_none
      getCachedWrite_def catchAs_def Let_def)

lemma edit_file_notes:
  assumes "str_includes txt x" and "int (length (jsSplit txt x)) - 1 \<le> 1"
  shows "edit_file exampleTransport exampleConfig emptyBridge (notesWorld txt) ''notes.txt'' x y
           = (success ''Successfully edited notes.txt'',
              emptyBridge\<lparr>writeCache := [''/srv/proj/notes.txt''
                  \<mapsto> \<lparr>ce_content = jsReplace txt x y, ce_timestamp = 1000\<rparr>]\<rparr>,
              notesWorld (jsReplace txt x y))"
  using assms
  by (simp add: edit_file_def edit_file_body_def toRemotePath_example_relative getRemoteUri_def
      getSshHost_exampleConfig consumeEditOverride_def getCachedWrite_def commit_def cacheWrite_def
      notify_def catchAs_def exampleTransport_def emptyBridge_def notesWorld_def emptyWorld_def
      notesUri_def Let_def)

text \<open>
  Claim C4 fails on the code where the new text holds a \<^verbatim>\<open>$\<close> pattern. On the file
  \<^verbatim>\<open>price: x\<close>, replacing \<^verbatim>\<open>x\<close> (which occurs once, at position 7) by \<^verbatim>\<open>$$5\<close> writes
  \<^verbatim>\<open>price: $5\<close>, where the occurrence replaced by the new text is \<^verbatim>\<open>price: $$5\<close>.
  Occurrences are counted by splitting, so overlapping ones count once: \<^verbatim>\<open>aa\<close> starts
  at the positions 0 and 1 of \<^verbatim>\<open>aaa\<close>, and the edit to \<^verbatim>\<open>b\<close> goes through and writes
  \<^verbatim>\<open>ba\<close>. (Without \<^verbatim>\<open>$\<close> in the new text the replacement is literal,
  \<open>jsReplace_literal\<close>, and the three outcomes are those of \<open>edit_file_outcomes\<close>.)
\<close>

theorem edit_file_expands_dollar_patterns:
  "edit_file exampleTransport exampleConfig emptyBridge (notesWorld ''price: x'') ''notes.txt''
     ''x'' ''$$5''
     = (success ''Successfully edited notes.txt'',
        emptyBridge\<lparr>writeCache := [''/srv/proj/notes.txt''
            \<mapsto> \<lparr>ce_content = ''price: $5'', ce_timestamp = 1000\<rparr>]\<rparr>,
        notesWorld ''price: $5'')
   \<and> indexOf ''price: x'' ''x'' = Some 7
   \<and> take 7 ''price: x'' @ ''$$5'' @ drop (7 + length ''x'') ''price: x'' = ''price: $$5''
   \<and> edit_file exampleTransport exampleConfig emptyBridge (notesWorld ''aaa'') ''notes.txt''
       ''aa'' ''b''
       = (success ''Successfully edited notes.txt'',
          emptyBridge\<lparr>writeCache := [''/srv/proj/notes.txt''
              \<mapsto> \<lparr>ce_content = ''ba'', ce_timestamp = 1000\<rparr>]\<rparr>,
          notesWorld ''ba'')
   \<and> startsWith (drop 0 ''aaa'') ''aa'' \<and> startsWith (drop 1 ''aaa'') ''aa''"
proof -
  have a: "str_includes ''price: x'' ''x''" "int (length (jsSplit ''price: x'' ''x'')) - 1 \<le> 1"
    "jsReplace ''price: x'' ''x'' ''$$5'' = ''price: $5''" "indexOf ''price: x'' ''x'' = Some 7"
    by (simp_all add: jsSplit_def jsReplace_def Let_def)
  have b: "str_includes ''aaa'' ''aa''" "int (length (jsSplit ''aaa'' ''aa'')) - 1 \<le> 1"
    "jsReplace ''aaa'' ''aa'' ''b'' = ''ba''"
    by (simp_all add: jsSplit_def jsReplace_def Let_def)
  show ?thesis
    using edit_file_notes[OF a(1,2), of "''$$5''"] edit_file_notes[OF b(1,2), of "''b''"] a(3,4) b(3)
    by simp
qed

end
